theory Spec2Isabelle
  imports Complex_Main "HOL-Library.Sublist"
begin

section \<open>Python values, errors and containers\<close>

text \<open>
  The two notebooks are straight-line Python. Everything they compute locally is a
  dictionary subscript, a list subscript, a string split, a list comprehension, a loop
  over a list or a column operation on a table. Each of these can raise, and the
  notebooks contain no \<^verbatim>\<open>try\<close>: an exception is a value \<open>Inl e\<close> of the result.
  \<open>RemoteError\<close> stands for whatever a call to the hosted service raises
  (authentication failure, rejected input, network failure).
\<close>

datatype error =
    KeyError string
  | IndexError
  | ValueError string
  | TypeError string
  | NameError string
  | RemoteError string

text \<open>
  A scalar value of the service's JSON as far as the notebooks look at it: a member of a
  spatial reference or of a travel mode, or a cell of a table.
\<close>

datatype val = VNull | VInt int | VStr string

type_synonym dict = "(string \<times> val) list"

text \<open>
  An attribute value of a feature is a scalar of the service's JSON: null, a boolean, an
  integer, a float or a string. A JSON number written with a fraction or an exponent
  becomes a Python float: a finite float is given by its exact value, which is a rational
  number, and the other floats are the negative zero, the two infinities and NaN.
\<close>

datatype double = Finite rat | NegZero | PosInf | NegInf | NaN

datatype field = FNull | FBool bool | FInt int | FFloat double | FStr string

type_synonym attrs = "(string \<times> field) list"

text \<open>\<^verbatim>\<open>d[k]\<close> on a dictionary: the value stored under \<open>k\<close>, or KeyError.\<close>

definition getitem :: "(string \<times> 'v) list \<Rightarrow> string \<Rightarrow> error + 'v" where
  "getitem d k = (case map_of d k of None \<Rightarrow> Inl (KeyError k) | Some v \<Rightarrow> Inr v)"

text \<open>\<^verbatim>\<open>xs[i]\<close> on a list, for the non-negative literal indices the notebooks use.\<close>

definition list_index :: "'a list \<Rightarrow> nat \<Rightarrow> error + 'a" where
  "list_index xs i = (if i < length xs then Inr (xs ! i) else Inl IndexError)"

text \<open>\<^verbatim>\<open>s.split(sep)\<close> for a one-character separator.\<close>

fun str_split :: "char \<Rightarrow> string \<Rightarrow> string list" where
  "str_split sep [] = [[]]"
| "str_split sep (c # cs) =
     (if c = sep then [] # str_split sep cs
      else (case str_split sep cs of
              [] \<Rightarrow> [[c]]
            | w # ws \<Rightarrow> (c # w) # ws))"

text \<open>Sequencing of computations that may raise: the first exception ends the chain.\<close>

definition bind :: "error + 'a \<Rightarrow> ('a \<Rightarrow> error + 'b) \<Rightarrow> error + 'b" where
  "bind m f = (case m of Inl e \<Rightarrow> Inl e | Inr x \<Rightarrow> f x)"

text \<open>A list comprehension or loop whose body may raise: elements in order, stopping at
  the first exception.\<close>

fun map_err :: "('a \<Rightarrow> error + 'b) \<Rightarrow> 'a list \<Rightarrow> error + 'b list" where
  "map_err f [] = Inr []"
| "map_err f (x # xs) = bind (f x) (\<lambda>y. bind (map_err f xs) (\<lambda>ys. Inr (y # ys)))"

text \<open>\<^verbatim>\<open>[t for t in xs if cond(t)]\<close> where the condition may raise.\<close>

fun filter_err :: "('a \<Rightarrow> error + bool) \<Rightarrow> 'a list \<Rightarrow> error + 'a list" where
  "filter_err p [] = Inr []"
| "filter_err p (x # xs) =
     bind (p x) (\<lambda>b. bind (filter_err p xs) (\<lambda>ys. Inr (if b then x # ys else ys)))"

section \<open>Features and feature sets\<close>

text \<open>
  Modelled from the spec: the classes \<^verbatim>\<open>Feature\<close> and \<^verbatim>\<open>FeatureSet\<close> belong to the
  \<^verbatim>\<open>arcgis\<close> package, which the notebooks import and which is not part of the sources.
  The spec describes a point location as a coordinate pair with optional attributes and a
  feature collection as a collection with a declared geometry type and spatial reference,
  passed through unchanged. A \<open>Feature\<close> therefore stores the geometry and the attributes
  it is constructed with (attributes default to \<^verbatim>\<open>None\<close>), and a \<open>FeatureSet\<close> stores its
  feature list, geometry type and spatial reference.
\<close>

record 'g Feature =
  geometry :: 'g
  attributes :: "attrs option"

record 'g FeatureSet =
  features :: "'g Feature list"
  geometry_type :: "string option"
  spatial_reference :: "dict option"

section \<open>Service-area notebook: the input facilities\<close>

text \<open>
  \<^verbatim>\<open>
  fire_station_1_coord = '139.546910,35.695729'
  fire_station_2_coord = '139.673726,35.697988'
  f1 = Feature(geometry={'x':float(fire_station_1_coord.split(',')[0]),
                         'y':float(fire_station_1_coord.split(',')[1])})
  f2 = Feature(geometry={'x':float(fire_station_2_coord.split(',')[0]),
                         'y':float(fire_station_2_coord.split(',')[1])})
  fire_station_fset = FeatureSet([f1,f2], geometry_type='esriGeometryPoint',
                                 spatial_reference={'latestWkid': 4326})
  \<close>
  Python's \<^verbatim>\<open>float\<close> is a parameter \<open>pyfloat\<close>: it returns a floating-point number of an
  unspecified type \<open>'f\<close> or raises ValueError. A point geometry is the dictionary with
  the keys \<open>x\<close> and \<open>y\<close>.
\<close>

definition fire_station_1_coord :: string where
  "fire_station_1_coord = ''139.546910,35.695729''"

definition fire_station_2_coord :: string where
  "fire_station_2_coord = ''139.673726,35.697988''"

definition point_feature :: "(string \<Rightarrow> error + 'f) \<Rightarrow> string \<Rightarrow> error + (string \<times> 'f) list Feature" where
  "point_feature pyfloat coord =
     bind (list_index (str_split CHR '','' coord) 0) (\<lambda>xs.
     bind (pyfloat xs) (\<lambda>x.
     bind (list_index (str_split CHR '','' coord) 1) (\<lambda>ys.
     bind (pyfloat ys) (\<lambda>y.
     Inr \<lparr>geometry = [(''x'', x), (''y'', y)], attributes = None\<rparr>))))"

definition fire_station_fset :: "(string \<Rightarrow> error + 'f) \<Rightarrow> error + (string \<times> 'f) list FeatureSet" where
  "fire_station_fset pyfloat =
     bind (point_feature pyfloat fire_station_1_coord) (\<lambda>f1.
     bind (point_feature pyfloat fire_station_2_coord) (\<lambda>f2.
     Inr \<lparr>features = [f1, f2],
          geometry_type = Some ''esriGeometryPoint'',
          spatial_reference = Some [(''latestWkid'', VInt 4326)]\<rparr>))"

text \<open>
  A stand-in for \<^verbatim>\<open>float\<close> that keeps the parsed text as the number's representation
  and rejects the empty string; it exercises the theorems on a concrete parser.
\<close>

definition literal_float :: "string \<Rightarrow> error + string" where
  "literal_float s = (if s = [] then Inl (ValueError s) else Inr s)"

section \<open>Service-area notebook: travel-mode selection\<close>

text \<open>
  \<^verbatim>\<open>
  travel_modes = sa_layer.retrieve_travel_modes()
  truck_mode = [t for t in travel_modes['supportedTravelModes'] if t['name'] == 'Trucking Time'][0]
  \<close>
  The response is a dictionary whose key \<open>supportedTravelModes\<close>, when present, holds a
  list of travel modes; a travel mode is a dictionary.
\<close>

record travel_modes =
  supportedTravelModes :: "dict list option"

definition subscript :: "string \<Rightarrow> 'a option \<Rightarrow> error + 'a" where
  "subscript k field = (case field of None \<Rightarrow> Inl (KeyError k) | Some v \<Rightarrow> Inr v)"

definition named_trucking_time :: "dict \<Rightarrow> error + bool" where
  "named_trucking_time t = bind (getitem t ''name'') (\<lambda>n. Inr (n = VStr ''Trucking Time''))"

definition truck_mode :: "travel_modes \<Rightarrow> error + dict" where
  "truck_mode tm =
     bind (subscript ''supportedTravelModes'' (supportedTravelModes tm)) (\<lambda>modes.
     bind (filter_err named_trucking_time modes) (\<lambda>sel.
     list_index sel 0))"

section \<open>Notebook cells as effectful computations\<close>

text \<open>
  A notebook runs its cells top to bottom. What a run does to the outside is the list of
  its events, in order: the requests sent to the hosted service and the calls made on the
  map widgets and on the output area. A computation takes the events so far and returns
  the events extended together with its value or the exception that ended it. There is no
  combinator that catches an exception, because the notebooks have no handler.
\<close>

type_synonym ('ev, 'a) io = "'ev list \<Rightarrow> 'ev list \<times> (error + 'a)"

definition io_return :: "'a \<Rightarrow> ('ev, 'a) io" where
  "io_return x = (\<lambda>evs. (evs, Inr x))"

definition io_lift :: "error + 'a \<Rightarrow> ('ev, 'a) io" where
  "io_lift r = (\<lambda>evs. (evs, r))"

definition io_emit :: "'ev \<Rightarrow> ('ev, unit) io" where
  "io_emit ev = (\<lambda>evs. (evs @ [ev], Inr ()))"

text \<open>A call to the service: the request is issued once, and the call returns the
  service's answer or raises what the service raises.\<close>

definition io_call :: "'ev \<Rightarrow> error + 'a \<Rightarrow> ('ev, 'a) io" where
  "io_call ev r = (\<lambda>evs. (evs @ [ev], r))"

definition io_bind :: "('ev, 'a) io \<Rightarrow> ('a \<Rightarrow> ('ev, 'b) io) \<Rightarrow> ('ev, 'b) io" where
  "io_bind p f = (\<lambda>evs. case p evs of
                     (evs', Inl e) \<Rightarrow> (evs', Inl e)
                   | (evs', Inr x) \<Rightarrow> f x evs')"

text \<open>\<^verbatim>\<open>for x in xs: body(x)\<close> with an effectful body.\<close>

fun io_foreach :: "('a \<Rightarrow> ('ev, unit) io) \<Rightarrow> 'a list \<Rightarrow> ('ev, unit) io" where
  "io_foreach body [] = io_return ()"
| "io_foreach body (x # xs) = io_bind (body x) (\<lambda>_. io_foreach body xs)"

section \<open>Service-area notebook: request, response and reshaping\<close>

text \<open>Marker symbols and popups are dictionaries; a colour is a list of integers.\<close>

datatype symval = SStr string | SInt int | SColor "int list"

type_synonym symbol = "(string \<times> symval) list"

type_synonym popup = "(string \<times> string) list"

text \<open>\<^verbatim>\<open>d[k] = v\<close>: the key keeps its position when present and is appended otherwise.\<close>

fun setitem :: "(string \<times> 'v) list \<Rightarrow> string \<Rightarrow> 'v \<Rightarrow> (string \<times> 'v) list" where
  "setitem [] k v = [(k, v)]"
| "setitem ((k', v') # d) k v = (if k' = k then (k, v) # d else (k', v') # setitem d k v)"

record gis =
  serviceArea_url :: string

record 'f sa_request =
  sa_facilities :: "(string \<times> 'f) list FeatureSet"
  default_breaks :: "int list"
  sa_travel_direction :: string
  travel_mode :: dict

text \<open>
  The response of the solve is a dictionary. A key the notebook subscripts is a field
  that is \<open>None\<close> when the response lacks the key, so that the subscript raises KeyError.
  Polygon geometries are values of an unspecified type \<open>'g\<close>.
\<close>

record 'g polygon_dict =
  pd_geometry :: "'g option"
  pd_attributes :: "attrs option"

record 'g sa_polygons =
  sp_features :: "'g polygon_dict list option"
  sp_geometryType :: "string option"
  sp_spatialReference :: "dict option"

record 'g sa_result =
  saPolygons :: "'g sa_polygons option"

text \<open>
  \<^verbatim>\<open>
  poly_feat_list = []
  for polygon_dict in result['saPolygons']['features']:
      f1 = Feature(polygon_dict['geometry'], polygon_dict['attributes'])
      poly_feat_list.append(f1)
  \<close>
\<close>

definition polygon_feature :: "'g polygon_dict \<Rightarrow> error + 'g Feature" where
  "polygon_feature polygon_dict =
     bind (subscript ''geometry'' (pd_geometry polygon_dict)) (\<lambda>g.
     bind (subscript ''attributes'' (pd_attributes polygon_dict)) (\<lambda>a.
     Inr \<lparr>geometry = g, attributes = Some a\<rparr>))"

definition poly_feat_list :: "'g sa_result \<Rightarrow> error + 'g Feature list" where
  "poly_feat_list result =
     bind (subscript ''saPolygons'' (saPolygons result)) (\<lambda>sa.
     bind (subscript ''features'' (sp_features sa)) (\<lambda>fs.
     map_err polygon_feature fs))"

text \<open>
  \<^verbatim>\<open>
  service_area_fset = FeatureSet(poly_feat_list,
                           geometry_type=result['saPolygons']['geometryType'],
                           spatial_reference= result['saPolygons']['spatialReference'])
  \<close>
\<close>

definition service_area_fset :: "'g sa_result \<Rightarrow> 'g Feature list \<Rightarrow> error + 'g FeatureSet" where
  "service_area_fset result pfl =
     bind (subscript ''saPolygons'' (saPolygons result)) (\<lambda>sa.
     bind (subscript ''geometryType'' (sp_geometryType sa)) (\<lambda>gt.
     bind (subscript ''saPolygons'' (saPolygons result)) (\<lambda>sa'.
     bind (subscript ''spatialReference'' (sp_spatialReference sa')) (\<lambda>sr.
     Inr \<lparr>features = pfl, geometry_type = Some gt, spatial_reference = Some sr\<rparr>))))"

text \<open>The two reshaping cells, one after the other.\<close>

definition reshape_service_area :: "'g sa_result \<Rightarrow> error + 'g FeatureSet" where
  "reshape_service_area result = bind (poly_feat_list result) (service_area_fset result)"

section \<open>Service-area notebook: rendering\<close>

text \<open>Decimal text of an integer, as \<^verbatim>\<open>str\<close> and \<^verbatim>\<open>format\<close> print it.\<close>

fun str_nat :: "nat \<Rightarrow> string" where
  "str_nat n = (if n < 10 then [''0123456789'' ! n]
                else str_nat (n div 10) @ [''0123456789'' ! (n mod 10)])"

definition str_int :: "int \<Rightarrow> string" where
  "str_int i = (if i < 0 then CHR ''-'' # str_nat (nat (- i)) else str_nat (nat i))"

text \<open>
  \<^verbatim>\<open>'{}'.format(v)\<close> for an attribute value. The text of a float (the shortest decimal
  text that reads back as the same float, such as \<^verbatim>\<open>5.0\<close>) is a parameter \<open>float_str\<close>.
\<close>

definition py_str :: "(double \<Rightarrow> string) \<Rightarrow> field \<Rightarrow> string" where
  "py_str float_str v =
     (case v of
        FNull \<Rightarrow> ''None''
      | FBool b \<Rightarrow> (if b then ''True'' else ''False'')
      | FInt i \<Rightarrow> str_int i
      | FFloat d \<Rightarrow> float_str d
      | FStr s \<Rightarrow> s)"

text \<open>
  \<^verbatim>\<open>
  colors = {5: [0, 128, 0, 90],
            10: [255, 255, 0, 90],
            15: [255, 0, 0, 90]}
  fill_symbol = {"type": "esriSFS","style": "esriSFSSolid",
                 "color": [115,76,0,255]}
  \<close>
\<close>

definition colors :: "(int \<times> int list) list" where
  "colors = [(5, [0, 128, 0, 90]), (10, [255, 255, 0, 90]), (15, [255, 0, 0, 90])]"

definition fill_symbol :: symbol where
  "fill_symbol = [(''type'', SStr ''esriSFS''), (''style'', SStr ''esriSFSSolid''),
                  (''color'', SColor [115, 76, 0, 255])]"

definition fire_truck_symbol :: symbol where
  "fire_truck_symbol =
     [(''type'', SStr ''esriPMS''),
      (''url'', SStr ''http://static.arcgis.com/images/Symbols/SafetyHealth/FireTruck.png''),
      (''contentType'', SStr ''image/png''), (''width'', SInt 20), (''height'', SInt 20)]"

text \<open>
  \<^verbatim>\<open>colors[v]\<close>: a dictionary finds the key that is equal to \<open>v\<close> (and has its hash). The
  keys are integers. An integer is equal to itself, to the float of the same value
  (\<^verbatim>\<open>5 == 5.0\<close>, \<^verbatim>\<open>0 == -0.0\<close>) and, when it is 1 or 0, to \<^verbatim>\<open>True\<close> or \<^verbatim>\<open>False\<close>; it is
  equal to no other float, to no string and not to \<^verbatim>\<open>None\<close>. \<open>int_key v\<close> is the integer
  that \<open>v\<close> is equal to, if there is one.
\<close>

fun double_int :: "double \<Rightarrow> int option" where
  "double_int (Finite q) = (if q = of_int \<lfloor>q\<rfloor> then Some \<lfloor>q\<rfloor> else None)"
| "double_int NegZero = Some 0"
| "double_int PosInf = None"
| "double_int NegInf = None"
| "double_int NaN = None"

definition int_key :: "field \<Rightarrow> int option" where
  "int_key v =
     (case v of
        FNull \<Rightarrow> None
      | FBool b \<Rightarrow> Some (if b then 1 else 0)
      | FInt i \<Rightarrow> Some i
      | FFloat d \<Rightarrow> double_int d
      | FStr s \<Rightarrow> None)"

definition colors_getitem :: "(double \<Rightarrow> string) \<Rightarrow> field \<Rightarrow> error + int list" where
  "colors_getitem float_str v =
     (case int_key v of
        None \<Rightarrow> Inl (KeyError (py_str float_str v))
      | Some i \<Rightarrow>
          (case map_of colors i of
             None \<Rightarrow> Inl (KeyError (py_str float_str v))
           | Some c \<Rightarrow> Inr c))"

text \<open>\<^verbatim>\<open>service_area.attributes['ToBreak']\<close>.\<close>

definition attribute :: "'g Feature \<Rightarrow> string \<Rightarrow> error + field" where
  "attribute f k =
     (case attributes f of
        None \<Rightarrow> Inl (TypeError ''NoneType object is not subscriptable'')
      | Some d \<Rightarrow> getitem d k)"

datatype ('f, 'g) sa_event =
    SA_Connect string string string
  | SA_Map string int
  | SA_Draw_facilities "(string \<times> 'f) list FeatureSet" symbol
  | SA_Retrieve_travel_modes string
  | SA_Solve string "'f sa_request"
  | SA_Draw 'g symbol popup

text \<open>
  \<^verbatim>\<open>
  for service_area in service_area_fset.features:
      #set color based on drive time
      fill_symbol['color'] = colors[service_area.attributes['ToBreak']]
      #set popup
      popup={"title": "Service area",
              "content": "{} minutes".format(service_area.attributes['ToBreak'])}
      map1.draw(service_area.geometry, symbol=fill_symbol, popup=popup)
  \<close>
  The loop updates the one dictionary \<open>fill_symbol\<close>, which is therefore threaded through
  the iterations; a draw event records the symbol as it is when \<^verbatim>\<open>draw\<close> is called.
\<close>

fun draw_service_areas ::
  "(double \<Rightarrow> string) \<Rightarrow> symbol \<Rightarrow> 'g Feature list \<Rightarrow> (('f, 'g) sa_event, symbol) io" where
  "draw_service_areas float_str fill [] = io_return fill"
| "draw_service_areas float_str fill (service_area # rest) =
     io_bind (io_lift (bind (attribute service_area ''ToBreak'') (colors_getitem float_str))) (\<lambda>c.
     io_bind (io_lift (attribute service_area ''ToBreak'')) (\<lambda>tb.
     io_bind (io_emit (SA_Draw (geometry service_area)
                         (setitem fill ''color'' (SColor c))
                         [(''title'', ''Service area''),
                          (''content'', py_str float_str tb @ '' minutes'')])) (\<lambda>_.
     draw_service_areas float_str (setitem fill ''color'' (SColor c)) rest)))"

section \<open>Service-area notebook: the run\<close>

text \<open>
  The hosted service, as far as this notebook calls it: signing in, geocoding the place a
  map widget is centred on, the travel modes of the service-area layer and the solve.
\<close>

record ('f, 'g) sa_service =
  sa_GIS :: "string \<Rightarrow> string \<Rightarrow> string \<Rightarrow> error + gis"
  sa_map :: "string \<Rightarrow> int \<Rightarrow> error + unit"
  sa_retrieve_travel_modes :: "string \<Rightarrow> error + travel_modes"
  sa_solve_service_area :: "string \<Rightarrow> 'f sa_request \<Rightarrow> error + 'g sa_result"

definition sa_request_of :: "(string \<times> 'f) list FeatureSet \<Rightarrow> dict \<Rightarrow> 'f sa_request" where
  "sa_request_of fset mode =
     \<lparr>sa_facilities = fset, default_breaks = [5, 10, 15],
      sa_travel_direction = ''esriNATravelDirectionFromFacility'', travel_mode = mode\<rparr>"

definition sa_notebook ::
  "(string \<Rightarrow> error + 'f) \<Rightarrow> (double \<Rightarrow> string) \<Rightarrow> ('f, 'g) sa_service \<Rightarrow>
   (('f, 'g) sa_event, unit) io" where
  "sa_notebook pyfloat float_str svc =
     io_bind (io_call (SA_Connect ''https://www.arcgis.com'' ''arcgis_python'' ''P@ssword123'')
                (sa_GIS svc ''https://www.arcgis.com'' ''arcgis_python'' ''P@ssword123'')) (\<lambda>my_gis.
     io_bind (io_lift (fire_station_fset pyfloat)) (\<lambda>fset.
     io_bind (io_call (SA_Map ''Tokyo'' 12) (sa_map svc ''Tokyo'' 12)) (\<lambda>_.
     io_bind (io_emit (SA_Draw_facilities fset fire_truck_symbol)) (\<lambda>_.
     io_bind (io_call (SA_Retrieve_travel_modes (serviceArea_url my_gis))
                (sa_retrieve_travel_modes svc (serviceArea_url my_gis))) (\<lambda>modes.
     io_bind (io_lift (truck_mode modes)) (\<lambda>mode.
     io_bind (io_call (SA_Solve (serviceArea_url my_gis) (sa_request_of fset mode))
                (sa_solve_service_area svc (serviceArea_url my_gis) (sa_request_of fset mode))) (\<lambda>result.
     io_bind (io_lift (subscript ''saPolygons'' (saPolygons result))) (\<lambda>_.
     io_bind (io_lift (poly_feat_list result)) (\<lambda>pfl.
     io_bind (io_lift (service_area_fset result pfl)) (\<lambda>sa_fset.
     io_bind (draw_service_areas float_str fill_symbol (features sa_fset)) (\<lambda>_.
     io_return ())))))))))))"

section \<open>Location-allocation notebook: tables\<close>

text \<open>
  A pandas data frame is the ordered list of its named columns; a column is the list of
  its values, one per row. A cell holds a scalar or, in the column \<open>SHAPE\<close>, a geometry.

  Modelled from the spec: \<^verbatim>\<open>FeatureSet.sdf\<close>, \<^verbatim>\<open>spatial.to_featureset()\<close> and
  \<^verbatim>\<open>FeatureSet.from_dataframe\<close> belong to the \<^verbatim>\<open>arcgis\<close> package, which is not part of
  the sources. The spec calls the collections a direct passthrough of the service's
  schema, so a feature set of this notebook is represented by its table (one row per
  feature: the attribute columns and the geometry column) and the three conversions
  leave the table as it is.
\<close>

datatype 'g cell = Scalar val | Shape 'g

type_synonym 'g frame = "(string \<times> 'g cell list) list"

text \<open>\<^verbatim>\<open>df.drop(c, axis=1)\<close>: a new frame without the column, KeyError when there is none.\<close>

definition drop_column :: "'g frame \<Rightarrow> string \<Rightarrow> error + 'g frame" where
  "drop_column df c =
     (if c \<in> fst ` set df then Inr (filter (\<lambda>kv. fst kv \<noteq> c) df) else Inl (KeyError c))"

text \<open>\<^verbatim>\<open>df[[c1, ..., cn]]\<close>: the named columns in the order asked for.\<close>

definition project :: "'g frame \<Rightarrow> string list \<Rightarrow> error + 'g frame" where
  "project df cs = map_err (\<lambda>c. bind (getitem df c) (\<lambda>col. Inr (c, col))) cs"

text \<open>\<^verbatim>\<open>df[mask]\<close> with a boolean column: the rows at which the mask is true.\<close>

definition mask_select :: "'a list \<Rightarrow> bool list \<Rightarrow> 'a list" where
  "mask_select xs keep = map fst (filter snd (zip xs keep))"

definition select_rows :: "'g frame \<Rightarrow> bool list \<Rightarrow> 'g frame" where
  "select_rows df keep = map (\<lambda>kv. (fst kv, mask_select (snd kv) keep)) df"

text \<open>\<^verbatim>\<open>col.isin(other)\<close> and \<^verbatim>\<open>~mask\<close>.\<close>

definition isin :: "'a list \<Rightarrow> 'a list \<Rightarrow> bool list" where
  "isin col other = map (\<lambda>v. v \<in> set other) col"

definition invert :: "bool list \<Rightarrow> bool list" where
  "invert keep = map Not keep"

section \<open>Location-allocation notebook: the demand-point weights\<close>

text \<open>
  \<^verbatim>\<open>
  # create the 'weight' column
  patient_locations_sdf['weight'] = patient_locations_sdf['num_patients']
  # drop the 'num_patients' column
  patient_locations_sdf2 = patient_locations_sdf.drop('num_patients', axis=1)
  # convert SpatialDataFrame back to a FeatureSet
  patient_locations_weighted = patient_locations_sdf2.spatial.to_featureset()
  \<close>
\<close>

definition patient_locations_weighted :: "'g frame \<Rightarrow> error + 'g frame" where
  "patient_locations_weighted patient_locations_sdf =
     bind (getitem patient_locations_sdf ''num_patients'') (\<lambda>num_patients.
     drop_column (setitem patient_locations_sdf ''weight'' num_patients) ''num_patients'')"

section \<open>Location-allocation notebook: requests, results and the map\<close>

record item =
  title :: string
  layers :: "string list"

record 'g la_request =
  problem_type :: string
  la_travel_direction :: string
  number_of_facilities_to_find :: "string option"
  target_market_share :: "int option"
  demand_points :: "'g frame"
  la_facilities :: "'g frame"
  measurement_units :: string
  default_measurement_cutoff :: int

record 'g la_result =
  solve_succeeded :: bool
  output_facilities :: "'g frame"
  output_demand_points :: "'g frame"
  output_allocation_lines :: "'g frame"

text \<open>
  The marker symbols of \<^verbatim>\<open>visualize_locate_allocate_results\<close>, by the names of the
  variables that hold them; their contents (styles, colours, widths) play no part in
  what is drawn where. \<open>allocation_line_symbol_3\<close> is defined and never used.
\<close>

datatype la_symbol =
    allocation_line_symbol_1
  | allocation_line_symbol_2
  | allocation_line_symbol_3
  | allocation_line_symbol_4
  | allocated_demand_symbol
  | unallocated_demand_symbol
  | selected_facilities_symbol

text \<open>A map widget is named by the variable that holds it.\<close>

datatype 'g la_event =
    LA_Connect string string string
  | LA_Search string string
  | LA_Display_item item
  | LA_Print string
  | LA_Map string "int option"
  | LA_Basemap string string
  | LA_Display_map string
  | LA_Add_layer string item
  | LA_Query string
  | LA_Solve "'g la_request"
  | LA_Draw string "'g frame" la_symbol
  | LA_Zoom string int

record 'g la_service =
  la_GIS :: "string \<Rightarrow> string \<Rightarrow> string \<Rightarrow> error + unit"
  la_search :: "string \<Rightarrow> string \<Rightarrow> error + item list"
  la_map :: "string \<Rightarrow> int option \<Rightarrow> error + unit"
  la_query :: "string \<Rightarrow> error + 'g frame"
  la_solve_location_allocation :: "'g la_request \<Rightarrow> error + 'g la_result"

text \<open>
  \<^verbatim>\<open>
  demand_df = result.output_demand_points.sdf
  lines_df = result.output_allocation_lines.sdf
  demand_allocated_df = demand_df[demand_df['DemandOID'].isin(lines_df['DemandOID'])]
  demand_not_allocated_df = demand_df[~demand_df['DemandOID'].isin(lines_df['DemandOID'])]
  facilities_df = result.output_facilities.sdf[['Name', 'FacilityType',
                                               'Weight','DemandCount', 'DemandWeight', 'SHAPE']]
  facilities_chosen_df = facilities_df[facilities_df['FacilityType'] == 3]
  \<close>
\<close>

definition demand_allocated_df :: "'g la_result \<Rightarrow> error + 'g frame" where
  "demand_allocated_df result =
     bind (getitem (output_demand_points result) ''DemandOID'') (\<lambda>oids.
     bind (getitem (output_allocation_lines result) ''DemandOID'') (\<lambda>line_oids.
     Inr (select_rows (output_demand_points result) (isin oids line_oids))))"

definition demand_not_allocated_df :: "'g la_result \<Rightarrow> error + 'g frame" where
  "demand_not_allocated_df result =
     bind (getitem (output_demand_points result) ''DemandOID'') (\<lambda>oids.
     bind (getitem (output_allocation_lines result) ''DemandOID'') (\<lambda>line_oids.
     Inr (select_rows (output_demand_points result) (invert (isin oids line_oids)))))"

definition facilities_df :: "'g la_result \<Rightarrow> error + 'g frame" where
  "facilities_df result =
     project (output_facilities result)
       [''Name'', ''FacilityType'', ''Weight'', ''DemandCount'', ''DemandWeight'', ''SHAPE'']"

definition facilities_chosen_df :: "'g la_result \<Rightarrow> error + 'g frame" where
  "facilities_chosen_df result =
     bind (facilities_df result) (\<lambda>fdf.
     bind (getitem fdf ''FacilityType'') (\<lambda>facility_type.
     Inr (select_rows fdf (map (\<lambda>v. v = Scalar (VInt 3)) facility_type))))"

text \<open>
  The function parses the result (above), defines the symbols and then draws:
  \<^verbatim>\<open>
  time.sleep(1.5)
  m.draw(shape=result.output_allocation_lines, symbol=allocation_line_symbol_4)
  m.draw(shape=result.output_allocation_lines, symbol=allocation_line_symbol_2)
  m.draw(shape=result.output_allocation_lines, symbol=allocation_line_symbol_1)
  m.draw(shape=demand_allocated_fset, symbol=allocated_demand_symbol)
  m.draw(shape = demand_not_allocated_fset, symbol = unallocated_demand_symbol)
  m.draw(shape=facilities_chosen_fset, symbol=selected_facilities_symbol)
  m.zoom = zoom_level
  \<close>
  The pause has no effect on what is computed or drawn and is left out.
\<close>

definition visualize_locate_allocate_results ::
  "string \<Rightarrow> 'g la_result \<Rightarrow> int \<Rightarrow> ('g la_event, unit) io" where
  "visualize_locate_allocate_results m result zoom_level =
     io_bind (io_lift (demand_allocated_df result)) (\<lambda>demand_allocated_fset.
     io_bind (io_lift (demand_not_allocated_df result)) (\<lambda>demand_not_allocated_fset.
     io_bind (io_lift (facilities_chosen_df result)) (\<lambda>facilities_chosen_fset.
     io_bind (io_emit (LA_Draw m (output_allocation_lines result) allocation_line_symbol_4)) (\<lambda>_.
     io_bind (io_emit (LA_Draw m (output_allocation_lines result) allocation_line_symbol_2)) (\<lambda>_.
     io_bind (io_emit (LA_Draw m (output_allocation_lines result) allocation_line_symbol_1)) (\<lambda>_.
     io_bind (io_emit (LA_Draw m demand_allocated_fset allocated_demand_symbol)) (\<lambda>_.
     io_bind (io_emit (LA_Draw m demand_not_allocated_fset unallocated_demand_symbol)) (\<lambda>_.
     io_bind (io_emit (LA_Draw m facilities_chosen_fset selected_facilities_symbol)) (\<lambda>_.
     io_emit (LA_Zoom m zoom_level))))))))))"

section \<open>Location-allocation notebook: the run\<close>

text \<open>
  \<^verbatim>\<open>
  for item in search_als:
      if item.title == 'ALS_Clinics_CA':
          als_clinics = item
      if item.title == 'ALS_Patients_CA':
          patient_locations = item
      if item.title == 'ALS_Clinic_City_Candidates_CA':
          city_candidates = item
      elif item.title == 'ALS_Clinic_90minDriveTime_CA':
          drive_times = item
  \<close>
  A variable that no iteration assigns stays undefined, and reading it raises NameError.
\<close>

record la_vars =
  als_clinics :: "item option"
  patient_locations :: "item option"
  city_candidates :: "item option"
  drive_times :: "item option"

definition assign_item :: "la_vars \<Rightarrow> item \<Rightarrow> la_vars" where
  "assign_item vars item =
     (let v1 = (if title item = ''ALS_Clinics_CA'' then vars\<lparr>als_clinics := Some item\<rparr> else vars);
          v2 = (if title item = ''ALS_Patients_CA'' then v1\<lparr>patient_locations := Some item\<rparr> else v1)
      in if title item = ''ALS_Clinic_City_Candidates_CA'' then v2\<lparr>city_candidates := Some item\<rparr>
         else if title item = ''ALS_Clinic_90minDriveTime_CA'' then v2\<lparr>drive_times := Some item\<rparr>
         else v2)"

definition assign_items :: "item list \<Rightarrow> la_vars" where
  "assign_items search_als =
     foldl assign_item
       \<lparr>als_clinics = None, patient_locations = None, city_candidates = None, drive_times = None\<rparr>
       search_als"

definition variable :: "string \<Rightarrow> 'a option \<Rightarrow> error + 'a" where
  "variable name v = (case v of None \<Rightarrow> Inl (NameError name) | Some x \<Rightarrow> Inr x)"

text \<open>\<^verbatim>\<open>'... {}'.format(b)\<close> for a boolean.\<close>

definition py_bool :: "bool \<Rightarrow> string" where
  "py_bool b = (if b then ''True'' else ''False'')"

text \<open>The cells up to the first map: sign in, search, list the items, show the layers.\<close>

definition la_setup :: "'g la_service \<Rightarrow> ('g la_event, la_vars) io" where
  "la_setup svc =
     io_bind (io_call (LA_Connect ''https://python.playground.esri.com/portal'' ''arcgis_python''
                         ''amazing_arcgis_123'')
                (la_GIS svc ''https://python.playground.esri.com/portal'' ''arcgis_python''
                         ''amazing_arcgis_123'')) (\<lambda>_.
     io_bind (io_call (LA_Search ''tags: ALS'' ''Feature Layer'')
                (la_search svc ''tags: ALS'' ''Feature Layer'')) (\<lambda>search_als.
     io_bind (io_foreach (\<lambda>item. io_emit (LA_Display_item item)) search_als) (\<lambda>_.
     io_bind (io_foreach (\<lambda>item. io_emit (LA_Print (title item))) search_als) (\<lambda>_.
     io_bind (io_call (LA_Map ''State of California, USA'' None)
                (la_map svc ''State of California, USA'' None)) (\<lambda>_.
     io_bind (io_emit (LA_Basemap ''map1'' ''dark-gray'')) (\<lambda>_.
     io_bind (io_emit (LA_Display_map ''map1'')) (\<lambda>_.
     io_bind (io_lift (variable ''drive_times'' (drive_times (assign_items search_als)))) (\<lambda>dt.
     io_bind (io_emit (LA_Add_layer ''map1'' dt)) (\<lambda>_.
     io_bind (io_lift (variable ''als_clinics'' (als_clinics (assign_items search_als)))) (\<lambda>ac.
     io_bind (io_emit (LA_Add_layer ''map1'' ac)) (\<lambda>_.
     io_bind (io_lift (variable ''patient_locations'' (patient_locations (assign_items search_als)))) (\<lambda>pl.
     io_bind (io_emit (LA_Add_layer ''map1'' pl)) (\<lambda>_.
     io_bind (io_lift (variable ''city_candidates'' (city_candidates (assign_items search_als)))) (\<lambda>cc.
     io_bind (io_emit (LA_Add_layer ''map1'' cc)) (\<lambda>_.
     io_return (assign_items search_als))))))))))))))))"

text \<open>
  \<^verbatim>\<open>
  city_candidates_fset = city_candidates.layers[0].query()
  patient_locations_fset = patient_locations.layers[0].query()
  patient_locations_sdf = patient_locations_fset.sdf
  \<close>
  followed by the weighting cell. The value is the pair of the candidate facilities and
  the weighted demand points.
\<close>

definition la_inputs :: "'g la_service \<Rightarrow> la_vars \<Rightarrow> ('g la_event, 'g frame \<times> 'g frame) io" where
  "la_inputs svc vars =
     io_bind (io_lift (variable ''city_candidates'' (city_candidates vars))) (\<lambda>cc.
     io_bind (io_lift (list_index (layers cc) 0)) (\<lambda>cc_layer.
     io_bind (io_call (LA_Query cc_layer) (la_query svc cc_layer)) (\<lambda>city_candidates_fset.
     io_bind (io_lift (variable ''patient_locations'' (patient_locations vars))) (\<lambda>pl.
     io_bind (io_lift (list_index (layers pl) 0)) (\<lambda>pl_layer.
     io_bind (io_call (LA_Query pl_layer) (la_query svc pl_layer)) (\<lambda>patient_locations_fset.
     io_bind (io_lift (patient_locations_weighted patient_locations_fset)) (\<lambda>weighted.
     io_return (city_candidates_fset, weighted))))))))"

text \<open>
  \<^verbatim>\<open>
  result1 = network.analysis.solve_location_allocation(problem_type='Maximize Coverage',
      travel_direction='Demand to Facility',
      number_of_facilities_to_find='1',
      demand_points=patient_locations_weighted,
      facilities=city_candidates_fset,
      measurement_units='Minutes',
      default_measurement_cutoff=90
  )
  print('Analysis succeeded? {}'.format(result1.solve_succeeded))
  \<close>
  A keyword the call does not pass is \<open>None\<close> in the request.
\<close>

definition request1 :: "'g frame \<Rightarrow> 'g frame \<Rightarrow> 'g la_request" where
  "request1 weighted candidates =
     \<lparr>problem_type = ''Maximize Coverage'',
      la_travel_direction = ''Demand to Facility'',
      number_of_facilities_to_find = Some ''1'',
      target_market_share = None,
      demand_points = weighted,
      la_facilities = candidates,
      measurement_units = ''Minutes'',
      default_measurement_cutoff = 90\<rparr>"

text \<open>
  \<^verbatim>\<open>
  result2 = network.analysis.solve_location_allocation(
      problem_type='Target Market Share',
      target_market_share=70,
      facilities=city_candidates_fset,
      demand_points=patient_locations_weighted,
      travel_direction='Demand to Facility',
      measurement_units='Minutes',
      default_measurement_cutoff=90
  )
  print('Solve succeeded? {}'.format(result2.solve_succeeded))
  \<close>
\<close>

definition request2 :: "'g frame \<Rightarrow> 'g frame \<Rightarrow> 'g la_request" where
  "request2 weighted candidates =
     \<lparr>problem_type = ''Target Market Share'',
      la_travel_direction = ''Demand to Facility'',
      number_of_facilities_to_find = None,
      target_market_share = Some 70,
      demand_points = weighted,
      la_facilities = candidates,
      measurement_units = ''Minutes'',
      default_measurement_cutoff = 90\<rparr>"

text \<open>
  A solve cell, the cell that shows the facilities table
  (\<^verbatim>\<open>result.output_facilities.sdf[['Name', 'FacilityType', 'DemandCount', 'DemandWeight']]\<close>)
  and the cell that creates a map of Visalia and calls the visualisation.
\<close>

definition la_analysis ::
  "'g la_service \<Rightarrow> 'g la_request \<Rightarrow> string \<Rightarrow> string \<Rightarrow> int option \<Rightarrow> int \<Rightarrow> ('g la_event, unit) io" where
  "la_analysis svc request label m zoomlevel zoom_level =
     io_bind (io_call (LA_Solve request) (la_solve_location_allocation svc request)) (\<lambda>result.
     io_bind (io_emit (LA_Print (label @ py_bool (solve_succeeded result)))) (\<lambda>_.
     io_bind (io_lift (project (output_facilities result)
                [''Name'', ''FacilityType'', ''DemandCount'', ''DemandWeight''])) (\<lambda>_.
     io_bind (io_call (LA_Map ''Visalia, CA'' zoomlevel) (la_map svc ''Visalia, CA'' zoomlevel)) (\<lambda>_.
     io_bind (io_emit (LA_Basemap m ''dark-gray'')) (\<lambda>_.
     io_bind (io_emit (LA_Display_map m)) (\<lambda>_.
     visualize_locate_allocate_results m result zoom_level))))))"

definition la_notebook :: "'g la_service \<Rightarrow> ('g la_event, unit) io" where
  "la_notebook svc =
     io_bind (la_setup svc) (\<lambda>vars.
     io_bind (la_inputs svc vars) (\<lambda>inputs.
     io_bind (la_analysis svc (request1 (snd inputs) (fst inputs))
                ''Analysis succeeded? '' ''map2'' None 7) (\<lambda>_.
     la_analysis svc (request2 (snd inputs) (fst inputs))
                ''Solve succeeded? '' ''map3'' (Some 7) 6)))"

section \<open>Vocabulary of the properties\<close>

text \<open>
  The definitions of this section are not taken from the notebooks. They say, in the
  words of the properties below, what the notebooks are expected to compute, and the
  theorems compare them with the definitions above.
\<close>

text \<open>A travel mode is named Trucking Time when its key \<open>name\<close> holds that string.\<close>

definition trucking_time :: "dict \<Rightarrow> bool" where
  "trucking_time t = (map_of t ''name'' = Some (VStr ''Trucking Time''))"

text \<open>The feature that carries a response entry's geometry and attributes unchanged, for
  an entry that has both keys.\<close>

definition complete_polygon :: "'g polygon_dict \<Rightarrow> bool" where
  "complete_polygon p = (pd_geometry p \<noteq> None \<and> pd_attributes p \<noteq> None)"

definition passthrough :: "'g polygon_dict \<Rightarrow> 'g Feature" where
  "passthrough p = \<lparr>geometry = the (pd_geometry p), attributes = pd_attributes p\<rparr>"

text \<open>
  The \<open>ToBreak\<close> attribute of a service-area polygon. It is the break value \<open>i\<close> when
  it is the integer \<open>i\<close> or the float with the value \<open>i\<close>. The colour that belongs to
  the break values 5, 10 and 15, the popup text \<open><ToBreak> minutes\<close> (the digits of an
  integer, the text of a float), and the draw call expected for a polygon.
\<close>

definition to_break :: "'g Feature \<Rightarrow> field option" where
  "to_break f = (case attributes f of None \<Rightarrow> None | Some d \<Rightarrow> map_of d ''ToBreak'')"

definition break_is :: "'g Feature \<Rightarrow> int \<Rightarrow> bool" where
  "break_is f i =
     (to_break f = Some (FInt i) \<or> to_break f = Some (FFloat (Finite (of_int i))))"

definition break_in_colors :: "'g Feature \<Rightarrow> bool" where
  "break_in_colors f = (break_is f 5 \<or> break_is f 10 \<or> break_is f 15)"

definition break_color :: "'g Feature \<Rightarrow> int list" where
  "break_color f = (if break_is f 5 then [0, 128, 0, 90]
                    else if break_is f 10 then [255, 255, 0, 90]
                    else [255, 0, 0, 90])"

definition break_minutes :: "(double \<Rightarrow> string) \<Rightarrow> 'g Feature \<Rightarrow> string" where
  "break_minutes float_str f =
     (case to_break f of
        Some (FInt i) \<Rightarrow> (if i = 5 then ''5 minutes''
                           else if i = 10 then ''10 minutes''
                           else ''15 minutes'')
      | Some (FFloat d) \<Rightarrow> float_str d @ '' minutes''
      | _ \<Rightarrow> [])"

definition drawn_area :: "(double \<Rightarrow> string) \<Rightarrow> symbol \<Rightarrow> 'g Feature \<Rightarrow> ('f, 'g) sa_event" where
  "drawn_area float_str fill f =
     SA_Draw (geometry f) (setitem fill ''color'' (SColor (break_color f)))
       [(''title'', ''Service area''), (''content'', break_minutes float_str f)]"

text \<open>
  Rows of a table by position. \<open>positions P col\<close> are the row numbers at which the
  column's value satisfies \<open>P\<close>, and \<open>rows_at df idxs\<close> is the table of the rows of \<open>df\<close>
  with these numbers, in their order. \<open>column df c\<close> is the column named \<open>c\<close>.
\<close>

definition positions :: "('a \<Rightarrow> bool) \<Rightarrow> 'a list \<Rightarrow> nat list" where
  "positions P xs = filter (\<lambda>i. P (xs ! i)) [0..<length xs]"

definition rows_at :: "'g frame \<Rightarrow> nat list \<Rightarrow> 'g frame" where
  "rows_at df idxs = map (\<lambda>kv. (fst kv, nths (snd kv) (set idxs))) df"

definition column :: "'g frame \<Rightarrow> string \<Rightarrow> 'g cell list" where
  "column df c = (case map_of df c of None \<Rightarrow> [] | Some col \<Rightarrow> col)"

text \<open>
  The demand points of a result whose \<open>DemandOID\<close> is, or is not, among the \<open>DemandOID\<close>
  values of the allocation lines; the six columns of the facilities table that the
  visualisation keeps; the facilities whose \<open>FacilityType\<close> is 3.
\<close>

definition allocated_rows :: "'g la_result \<Rightarrow> nat list" where
  "allocated_rows result =
     positions (\<lambda>oid. oid \<in> set (column (output_allocation_lines result) ''DemandOID''))
       (column (output_demand_points result) ''DemandOID'')"

definition unallocated_rows :: "'g la_result \<Rightarrow> nat list" where
  "unallocated_rows result =
     positions (\<lambda>oid. oid \<notin> set (column (output_allocation_lines result) ''DemandOID''))
       (column (output_demand_points result) ''DemandOID'')"

definition chosen_columns :: "string list" where
  "chosen_columns =
     [''Name'', ''FacilityType'', ''Weight'', ''DemandCount'', ''DemandWeight'', ''SHAPE'']"

definition facility_table :: "'g la_result \<Rightarrow> 'g frame" where
  "facility_table result = map (\<lambda>c. (c, column (output_facilities result) c)) chosen_columns"

definition chosen_rows :: "'g la_result \<Rightarrow> nat list" where
  "chosen_rows result =
     positions (\<lambda>t. t = Scalar (VInt 3)) (column (output_facilities result) ''FacilityType'')"

text \<open>
  What a computation does when it starts with no events: the events it issues and the
  value or exception it ends with. A computation \<open>appends\<close> when, started after any
  events, it leaves them in place, adds its own events and ends the same way.
\<close>

definition events :: "('ev, 'a) io \<Rightarrow> 'ev list" where
  "events c = fst (c [])"

definition outcome :: "('ev, 'a) io \<Rightarrow> error + 'a" where
  "outcome c = snd (c [])"

definition appends :: "('ev, 'a) io \<Rightarrow> bool" where
  "appends c = (\<forall>evs. c evs = (evs @ events c, outcome c))"

text \<open>
  The events expected of one analysis of the location-allocation notebook that runs to
  its end: the solve request, the printed flag, the new map of Visalia, and the drawing
  of the result (the allocation lines three times, the allocated and the unallocated
  demand points, the chosen facilities, the zoom). \<open>solve_problem_type\<close> reads the
  problem type off a solve event.
\<close>

definition visualized :: "string \<Rightarrow> 'g la_result \<Rightarrow> int \<Rightarrow> 'g la_event list" where
  "visualized m result zoom_level =
     [LA_Draw m (output_allocation_lines result) allocation_line_symbol_4,
      LA_Draw m (output_allocation_lines result) allocation_line_symbol_2,
      LA_Draw m (output_allocation_lines result) allocation_line_symbol_1,
      LA_Draw m (rows_at (output_demand_points result) (allocated_rows result))
        allocated_demand_symbol,
      LA_Draw m (rows_at (output_demand_points result) (unallocated_rows result))
        unallocated_demand_symbol,
      LA_Draw m (rows_at (facility_table result) (chosen_rows result))
        selected_facilities_symbol,
      LA_Zoom m zoom_level]"

definition la_shown ::
  "'g la_request \<Rightarrow> 'g la_result \<Rightarrow> string \<Rightarrow> string \<Rightarrow> int option \<Rightarrow> int \<Rightarrow> 'g la_event list" where
  "la_shown req result label m zoomlevel zoom_level =
     [LA_Solve req,
      LA_Print (label @ (if solve_succeeded result then ''True'' else ''False'')),
      LA_Map ''Visalia, CA'' zoomlevel,
      LA_Basemap m ''dark-gray'',
      LA_Display_map m] @ visualized m result zoom_level"

definition solve_problem_type :: "'g la_event \<Rightarrow> string" where
  "solve_problem_type ev = (case ev of LA_Solve req \<Rightarrow> problem_type req | _ \<Rightarrow> [])"

text \<open>
  The exception a call raised, if any; the solve requests among the events of the
  service-area notebook; and, for an event of that notebook, the exception with which
  the service answers it (\<open>None\<close> for an event that is no request or that the service
  answers normally).
\<close>

definition err_of :: "error + 'a \<Rightarrow> error option" where
  "err_of r = (case r of Inl e \<Rightarrow> Some e | Inr x \<Rightarrow> None)"

fun is_sa_solve :: "('f, 'g) sa_event \<Rightarrow> bool" where
  "is_sa_solve (SA_Solve u req) = True"
| "is_sa_solve ev = False"

fun sa_failed :: "('f, 'g) sa_service \<Rightarrow> ('f, 'g) sa_event \<Rightarrow> error option" where
  "sa_failed svc (SA_Connect url user password) = err_of (sa_GIS svc url user password)"
| "sa_failed svc (SA_Map place zoomlevel) = err_of (sa_map svc place zoomlevel)"
| "sa_failed svc (SA_Retrieve_travel_modes url) = err_of (sa_retrieve_travel_modes svc url)"
| "sa_failed svc (SA_Solve url req) = err_of (sa_solve_service_area svc url req)"
| "sa_failed svc (SA_Draw_facilities fset symb) = None"
| "sa_failed svc (SA_Draw g symb p) = None"

text \<open>The same for the location-allocation notebook, with its queries, draw calls and
  printed lines.\<close>

fun is_la_solve :: "'g la_event \<Rightarrow> bool" where
  "is_la_solve (LA_Solve req) = True"
| "is_la_solve ev = False"

fun is_la_query :: "'g la_event \<Rightarrow> bool" where
  "is_la_query (LA_Query layer) = True"
| "is_la_query ev = False"

fun is_la_draw :: "'g la_event \<Rightarrow> bool" where
  "is_la_draw (LA_Draw m shape symb) = True"
| "is_la_draw ev = False"

fun is_la_print :: "'g la_event \<Rightarrow> bool" where
  "is_la_print (LA_Print line) = True"
| "is_la_print ev = False"

fun la_failed :: "'g la_service \<Rightarrow> 'g la_event \<Rightarrow> error option" where
  "la_failed svc (LA_Connect url user password) = err_of (la_GIS svc url user password)"
| "la_failed svc (LA_Search q t) = err_of (la_search svc q t)"
| "la_failed svc (LA_Map place zoomlevel) = err_of (la_map svc place zoomlevel)"
| "la_failed svc (LA_Query layer) = err_of (la_query svc layer)"
| "la_failed svc (LA_Solve req) = err_of (la_solve_location_allocation svc req)"
| "la_failed svc ev = None"

text \<open>
  A run is fail-stop for a service when no request that the service answers with an
  exception is followed by another event, and the exception of such a request is the
  outcome of the run.
\<close>

definition fail_stop :: "('ev \<Rightarrow> error option) \<Rightarrow> ('ev, 'a) io \<Rightarrow> bool" where
  "fail_stop failed c =
     (case outcome c of
        Inr x \<Rightarrow> list_all (\<lambda>ev. failed ev = None) (events c)
      | Inl e \<Rightarrow> list_all (\<lambda>ev. failed ev = None) (events c) \<or>
                 (events c \<noteq> [] \<and> list_all (\<lambda>ev. failed ev = None) (butlast (events c)) \<and>
                  failed (last (events c)) = Some e))"

text \<open>The service that answers as \<open>svc\<close> does, except that the flag \<open>solve_succeeded\<close>
  of every solve result is replaced by \<open>flag req\<close>.\<close>

definition with_flag :: "('g la_request \<Rightarrow> bool) \<Rightarrow> 'g la_service \<Rightarrow> 'g la_service" where
  "with_flag flag svc =
     svc\<lparr>la_solve_location_allocation :=
           (\<lambda>req. case la_solve_location_allocation svc req of
                     Inl e \<Rightarrow> Inl e
                   | Inr result \<Rightarrow> Inr (result\<lparr>solve_succeeded := flag req\<rparr>))\<rparr>"

text \<open>
  The step that an event is: the event without its data. A map keeps its place, a base
  map, a layer, a draw call and a zoom keep the name of the map widget, a draw call
  keeps its symbol and a solve request its problem type. The plan of a notebook is the
  list of the steps that its cells take, in the order of the cells, when no cell raises:
  the plan of the service-area notebook ends with one draw call for each of \<open>n\<close>
  polygons, and the plan of the location-allocation notebook displays and prints \<open>n\<close>
  items after the search.
\<close>

datatype sa_step =
    Sa_connect | Sa_map | Sa_draw_facilities | Sa_travel_modes | Sa_solve | Sa_draw

fun sa_kind :: "('f, 'g) sa_event \<Rightarrow> sa_step" where
  "sa_kind (SA_Connect url user password) = Sa_connect"
| "sa_kind (SA_Map place zoomlevel) = Sa_map"
| "sa_kind (SA_Draw_facilities fset symb) = Sa_draw_facilities"
| "sa_kind (SA_Retrieve_travel_modes url) = Sa_travel_modes"
| "sa_kind (SA_Solve url req) = Sa_solve"
| "sa_kind (SA_Draw g symb p) = Sa_draw"

definition sa_plan :: "nat \<Rightarrow> sa_step list" where
  "sa_plan n =
     [Sa_connect, Sa_map, Sa_draw_facilities, Sa_travel_modes, Sa_solve] @ replicate n Sa_draw"

datatype la_step =
    La_connect | La_search | La_display_item | La_print | La_map string
  | La_basemap string | La_display_map string | La_add_layer string | La_query
  | La_solve string | La_draw string la_symbol | La_zoom string int

fun la_kind :: "'g la_event \<Rightarrow> la_step" where
  "la_kind (LA_Connect url user password) = La_connect"
| "la_kind (LA_Search q t) = La_search"
| "la_kind (LA_Display_item item) = La_display_item"
| "la_kind (LA_Print line) = La_print"
| "la_kind (LA_Map place zoomlevel) = La_map place"
| "la_kind (LA_Basemap m basemap) = La_basemap m"
| "la_kind (LA_Display_map m) = La_display_map m"
| "la_kind (LA_Add_layer m item) = La_add_layer m"
| "la_kind (LA_Query layer) = La_query"
| "la_kind (LA_Solve req) = La_solve (problem_type req)"
| "la_kind (LA_Draw m shape symb) = La_draw m symb"
| "la_kind (LA_Zoom m zoom_level) = La_zoom m zoom_level"

definition la_setup_plan :: "nat \<Rightarrow> la_step list" where
  "la_setup_plan n =
     [La_connect, La_search] @ replicate n La_display_item @ replicate n La_print @
     [La_map ''State of California, USA'', La_basemap ''map1'', La_display_map ''map1'',
      La_add_layer ''map1'', La_add_layer ''map1'', La_add_layer ''map1'', La_add_layer ''map1'']"

definition la_analysis_plan :: "string \<Rightarrow> string \<Rightarrow> int \<Rightarrow> la_step list" where
  "la_analysis_plan problem m zoom_level =
     [La_solve problem, La_print, La_map ''Visalia, CA'', La_basemap m, La_display_map m,
      La_draw m allocation_line_symbol_4, La_draw m allocation_line_symbol_2,
      La_draw m allocation_line_symbol_1, La_draw m allocated_demand_symbol,
      La_draw m unallocated_demand_symbol, La_draw m selected_facilities_symbol,
      La_zoom m zoom_level]"

definition la_plan :: "nat \<Rightarrow> la_step list" where
  "la_plan n =
     la_setup_plan n @ [La_query, La_query] @
     la_analysis_plan ''Maximize Coverage'' ''map2'' 7 @
     la_analysis_plan ''Target Market Share'' ''map3'' 6"

section \<open>Sample responses\<close>

text \<open>
  Concrete answers of the service, on which the properties are exercised. Geometries are
  represented by their names.
\<close>

definition sample_sa_result :: "string sa_result" where
  "sample_sa_result =
     \<lparr>saPolygons = Some
        \<lparr>sp_features = Some
           [\<lparr>pd_geometry = Some ''ring 1 (10-15)'',
             pd_attributes = Some [(''FacilityID'', FInt 1), (''FromBreak'', FInt 10), (''ToBreak'', FInt 15)]\<rparr>,
            \<lparr>pd_geometry = Some ''ring 1 (5-10)'',
             pd_attributes = Some [(''FacilityID'', FInt 1), (''FromBreak'', FInt 5), (''ToBreak'', FInt 10)]\<rparr>,
            \<lparr>pd_geometry = Some ''ring 1 (0-5)'',
             pd_attributes = Some [(''FacilityID'', FInt 1), (''FromBreak'', FInt 0), (''ToBreak'', FInt 5)]\<rparr>],
         sp_geometryType = Some ''esriGeometryPolygon'',
         sp_spatialReference = Some [(''wkid'', VInt 4326), (''latestWkid'', VInt 4326)]\<rparr>\<rparr>"

definition sample_areas :: "string Feature list" where
  "sample_areas =
     [\<lparr>geometry = ''ring 1 (10-15)'', attributes = Some [(''FromBreak'', FInt 10), (''ToBreak'', FInt 15)]\<rparr>,
      \<lparr>geometry = ''ring 1 (5-10)'', attributes = Some [(''FromBreak'', FInt 5), (''ToBreak'', FInt 10)]\<rparr>,
      \<lparr>geometry = ''ring 1 (0-5)'', attributes = Some [(''FromBreak'', FInt 0), (''ToBreak'', FInt 5)]\<rparr>]"

definition sample_areas_other :: "string Feature list" where
  "sample_areas_other =
     [\<lparr>geometry = ''ring 1 (0-5)'', attributes = Some [(''FromBreak'', FInt 0), (''ToBreak'', FInt 5)]\<rparr>,
      \<lparr>geometry = ''ring 1 (5-20)'', attributes = Some [(''FromBreak'', FInt 5), (''ToBreak'', FInt 20)]\<rparr>,
      \<lparr>geometry = ''ring 1 (10-15)'', attributes = Some [(''FromBreak'', FInt 10), (''ToBreak'', FInt 15)]\<rparr>]"

text \<open>The same with breaks that the service wrote as floats: 5.0 and 10.0, and then 5.0,
  7.5 and 15.0.\<close>

definition sample_areas_float :: "string Feature list" where
  "sample_areas_float =
     [\<lparr>geometry = ''ring 2 (0-5)'',
       attributes = Some [(''FromBreak'', FFloat (Finite 0)), (''ToBreak'', FFloat (Finite 5))]\<rparr>,
      \<lparr>geometry = ''ring 2 (5-10)'',
       attributes = Some [(''FromBreak'', FFloat (Finite 5)), (''ToBreak'', FFloat (Finite 10))]\<rparr>]"

definition sample_areas_float_other :: "string Feature list" where
  "sample_areas_float_other =
     [\<lparr>geometry = ''ring 2 (0-5)'',
       attributes = Some [(''FromBreak'', FFloat (Finite 0)), (''ToBreak'', FFloat (Finite 5))]\<rparr>,
      \<lparr>geometry = ''ring 2 (5-7.5)'',
       attributes = Some [(''FromBreak'', FFloat (Finite 5)), (''ToBreak'', FFloat (Finite (15 / 2)))]\<rparr>,
      \<lparr>geometry = ''ring 2 (10-15)'',
       attributes = Some [(''FromBreak'', FFloat (Finite 10)), (''ToBreak'', FFloat (Finite 15))]\<rparr>]"

text \<open>
  A stand-in for the text of a float. It is the text Python gives for a float with an
  integral value of fewer than seventeen digits (the digits and \<^verbatim>\<open>.0\<close>), for the
  negative zero, the infinities and NaN; for every other float it gives a question mark
  and not the digits. The properties are exercised on it.
\<close>

definition integral_float_str :: "double \<Rightarrow> string" where
  "integral_float_str d =
     (case d of
        Finite q \<Rightarrow> (if q = of_int \<lfloor>q\<rfloor> \<and> \<bar>q\<bar> < 10 ^ 16
                     then str_int \<lfloor>q\<rfloor> @ ''.0'' else ''?'')
      | NegZero \<Rightarrow> ''-0.0''
      | PosInf \<Rightarrow> ''inf''
      | NegInf \<Rightarrow> ''-inf''
      | NaN \<Rightarrow> ''nan'')"


definition sample_patients :: "string frame" where
  "sample_patients =
     [(''OBJECTID'', [Scalar (VInt 1), Scalar (VInt 2)]),
      (''num_patients'', [Scalar (VInt 3), Scalar (VInt 8)]),
      (''zip'', [Scalar (VStr ''93277''), Scalar (VStr ''93555'')]),
      (''SHAPE'', [Shape ''patients 1'', Shape ''patients 2''])]"

definition sample_candidates :: "string frame" where
  "sample_candidates =
     [(''OBJECTID'', [Scalar (VInt 1), Scalar (VInt 2)]),
      (''NAME'', [Scalar (VStr ''Visalia''), Scalar (VStr ''Redding'')]),
      (''SHAPE'', [Shape ''Visalia centroid'', Shape ''Redding centroid''])]"

definition sample_la_result :: "string la_result" where
  "sample_la_result =
     \<lparr>solve_succeeded = True,
      output_facilities =
        [(''Name'', [Scalar (VStr ''Visalia''), Scalar (VStr ''Redding'')]),
         (''FacilityType'', [Scalar (VInt 3), Scalar (VInt 0)]),
         (''Weight'', [Scalar (VInt 1), Scalar (VInt 1)]),
         (''DemandCount'', [Scalar (VInt 1), Scalar (VInt 0)]),
         (''DemandWeight'', [Scalar (VInt 3), Scalar (VInt 0)]),
         (''CurbApproach'', [Scalar (VInt 0), Scalar (VInt 0)]),
         (''SHAPE'', [Shape ''Visalia centroid'', Shape ''Redding centroid''])],
      output_demand_points =
        [(''DemandOID'', [Scalar (VInt 1), Scalar (VInt 2)]),
         (''Weight'', [Scalar (VInt 3), Scalar (VInt 8)]),
         (''SHAPE'', [Shape ''patients 1'', Shape ''patients 2''])],
      output_allocation_lines =
        [(''DemandOID'', [Scalar (VInt 1)]),
         (''FacilityOID'', [Scalar (VInt 1)]),
         (''SHAPE'', [Shape ''line 1-1''])]\<rparr>"

definition sample_travel_modes :: travel_modes where
  "sample_travel_modes =
     \<lparr>supportedTravelModes = Some
        [[(''name'', VStr ''Driving Time''), (''id'', VStr ''FEgifRtFndKNcJMJ'')],
         [(''name'', VStr ''Trucking Time''), (''id'', VStr ''ZzzRtYcPLjXFBKwr'')],
         [(''name'', VStr ''Walking Time''), (''id'', VStr ''caFAgoThrvUpkFBW'')]]\<rparr>"

definition sample_sa_service :: "(string, string) sa_service" where
  "sample_sa_service =
     \<lparr>sa_GIS = (\<lambda>url user password. Inr \<lparr>serviceArea_url = ''https://route.arcgis.com/ServiceArea''\<rparr>),
      sa_map = (\<lambda>place zoomlevel. Inr ()),
      sa_retrieve_travel_modes = (\<lambda>url. Inr sample_travel_modes),
      sa_solve_service_area = (\<lambda>url req. Inr sample_sa_result)\<rparr>"

definition sample_items :: "item list" where
  "sample_items =
     [\<lparr>title = ''ALS_Clinics_CA'', layers = [''clinics/0'']\<rparr>,
      \<lparr>title = ''ALS_Patients_CA'', layers = [''patients/0'']\<rparr>,
      \<lparr>title = ''ALS_Clinic_City_Candidates_CA'', layers = [''candidates/0'']\<rparr>,
      \<lparr>title = ''ALS_Clinic_90minDriveTime_CA'', layers = [''drivetimes/0'']\<rparr>]"

definition sample_la_service :: "string la_service" where
  "sample_la_service =
     \<lparr>la_GIS = (\<lambda>url user password. Inr ()),
      la_search = (\<lambda>q t. Inr sample_items),
      la_map = (\<lambda>place zoomlevel. Inr ()),
      la_query = (\<lambda>layer. if layer = ''patients/0'' then Inr sample_patients
                           else if layer = ''candidates/0'' then Inr sample_candidates
                           else Inl (RemoteError ''no such layer'')),
      la_solve_location_allocation = (\<lambda>req. Inr sample_la_result)\<rparr>"

definition sample_fire_stations :: "(string \<times> string) list FeatureSet" where
  "sample_fire_stations =
     \<lparr>features = [\<lparr>geometry = [(''x'', ''139.546910''), (''y'', ''35.695729'')], attributes = None\<rparr>,
                  \<lparr>geometry = [(''x'', ''139.673726''), (''y'', ''35.697988'')], attributes = None\<rparr>],
      geometry_type = Some ''esriGeometryPoint'',
      spatial_reference = Some [(''latestWkid'', VInt 4326)]\<rparr>"

definition sample_sa_request :: "string sa_request" where
  "sample_sa_request =
     \<lparr>sa_facilities = sample_fire_stations,
      default_breaks = [5, 10, 15],
      sa_travel_direction = ''esriNATravelDirectionFromFacility'',
      travel_mode = [(''name'', VStr ''Trucking Time''), (''id'', VStr ''ZzzRtYcPLjXFBKwr'')]\<rparr>"

definition sample_vars :: la_vars where
  "sample_vars =
     \<lparr>als_clinics = Some \<lparr>title = ''ALS_Clinics_CA'', layers = [''clinics/0'']\<rparr>,
      patient_locations = Some \<lparr>title = ''ALS_Patients_CA'', layers = [''patients/0'']\<rparr>,
      city_candidates = Some \<lparr>title = ''ALS_Clinic_City_Candidates_CA'', layers = [''candidates/0'']\<rparr>,
      drive_times = Some \<lparr>title = ''ALS_Clinic_90minDriveTime_CA'', layers = [''drivetimes/0'']\<rparr>\<rparr>"

definition sample_weighted :: "string frame" where
  "sample_weighted =
     [(''OBJECTID'', [Scalar (VInt 1), Scalar (VInt 2)]),
      (''zip'', [Scalar (VStr ''93277''), Scalar (VStr ''93555'')]),
      (''SHAPE'', [Shape ''patients 1'', Shape ''patients 2'']),
      (''weight'', [Scalar (VInt 3), Scalar (VInt 8)])]"

text \<open>Services that answer every solve with an exception.\<close>

definition failing_sa_service :: "(string, string) sa_service" where
  "failing_sa_service =
     sample_sa_service\<lparr>sa_solve_service_area := (\<lambda>url req. Inl (RemoteError ''network''))\<rparr>"

definition failing_la_service :: "string la_service" where
  "failing_la_service =
     sample_la_service\<lparr>la_solve_location_allocation := (\<lambda>req. Inl (RemoteError ''token expired''))\<rparr>"

text \<open>Services that refuse the connection, and a service that answers every solve with
  the flag \<open>solve_succeeded\<close> false.\<close>

definition unreachable_sa_service :: "(string, string) sa_service" where
  "unreachable_sa_service =
     sample_sa_service\<lparr>sa_GIS := (\<lambda>url user password. Inl (RemoteError ''invalid credentials''))\<rparr>"

definition unreachable_la_service :: "string la_service" where
  "unreachable_la_service =
     sample_la_service\<lparr>la_GIS := (\<lambda>url user password. Inl (RemoteError ''invalid credentials''))\<rparr>"

definition unsolved_la_service :: "string la_service" where
  "unsolved_la_service =
     sample_la_service
       \<lparr>la_solve_location_allocation := (\<lambda>req. Inr (sample_la_result\<lparr>solve_succeeded := False\<rparr>))\<rparr>"

section \<open>Events and outcome of a computation\<close>

lemma appends_return [simp]: "appends (io_return x)"
  by (simp add: appends_def events_def outcome_def io_return_def io_lift_def io_emit_def io_call_def)

lemma appends_lift [simp]: "appends (io_lift r)"
  by (simp add: appends_def events_def outcome_def io_return_def io_lift_def io_emit_def io_call_def)

lemma appends_emit [simp]: "appends (io_emit ev)"
  by (simp add: appends_def events_def outcome_def io_return_def io_lift_def io_emit_def io_call_def)

lemma appends_call [simp]: "appends (io_call ev r)"
  by (simp add: appends_def events_def outcome_def io_return_def io_lift_def io_emit_def io_call_def)

lemma run_bind:
  assumes "appends c" and "\<And>x. appends (f x)"
  shows "io_bind c f evs =
           (case outcome c of
              Inl e \<Rightarrow> (evs @ events c, Inl e)
            | Inr x \<Rightarrow> (evs @ events c @ events (f x), outcome (f x)))"
proof -
  have c: "c evs = (evs @ events c, outcome c)" using assms(1) by (simp add: appends_def)
  show ?thesis
  proof (cases "outcome c")
    case (Inl e)
    then show ?thesis using c by (simp add: io_bind_def)
  next
    case (Inr x)
    have "f x (evs @ events c) = ((evs @ events c) @ events (f x), outcome (f x))"
      using assms(2)[of x] by (simp add: appends_def)
    then show ?thesis using c Inr by (simp add: io_bind_def)
  qed
qed

lemma appends_bind [simp]:
  assumes "appends c" and "\<And>x. appends (f x)"
  shows "appends (io_bind c f)"
  unfolding appends_def
proof
  fix evs
  have e: "events (io_bind c f) = (case outcome c of Inl e \<Rightarrow> events c | Inr x \<Rightarrow> events c @ events (f x))"
    unfolding events_def[of "io_bind c f"] run_bind[OF assms] by (simp split: sum.splits)
  have r: "outcome (io_bind c f) = (case outcome c of Inl e \<Rightarrow> Inl e | Inr x \<Rightarrow> outcome (f x))"
    unfolding outcome_def[of "io_bind c f"] run_bind[OF assms] by (simp split: sum.splits)
  show "io_bind c f evs = (evs @ events (io_bind c f), outcome (io_bind c f))"
    unfolding run_bind[OF assms] e r by (simp split: sum.splits)
qed

lemma events_bind:
  assumes "appends c" and "\<And>x. appends (f x)"
  shows "events (io_bind c f) =
           (case outcome c of Inl e \<Rightarrow> events c | Inr x \<Rightarrow> events c @ events (f x))"
  unfolding events_def[of "io_bind c f"] run_bind[OF assms] by (simp split: sum.splits)

lemma outcome_bind:
  assumes "appends c" and "\<And>x. appends (f x)"
  shows "outcome (io_bind c f) = bind (outcome c) (\<lambda>x. outcome (f x))"
  unfolding outcome_def[of "io_bind c f"] run_bind[OF assms] by (simp add: bind_def split: sum.splits)

lemma events_prims [simp]:
  "events (io_return x) = []" "events (io_lift r) = []"
  "events (io_emit ev) = [ev]" "events (io_call ev r) = [ev]"
  by (simp_all add: events_def io_return_def io_lift_def io_emit_def io_call_def)

lemma outcome_prims [simp]:
  "outcome (io_return x) = Inr x" "outcome (io_lift r) = r"
  "outcome (io_emit ev) = Inr ()" "outcome (io_call ev r) = r"
  by (simp_all add: outcome_def io_return_def io_lift_def io_emit_def io_call_def)

lemma appends_foreach [simp]: "(\<And>x. appends (body x)) \<Longrightarrow> appends (io_foreach body xs)"
  by (induction xs) simp_all

lemma events_foreach_emit [simp]: "events (io_foreach (\<lambda>x. io_emit (g x)) xs) = map g xs"
  by (induction xs) (simp_all add: events_bind)

lemma outcome_foreach_emit [simp]: "outcome (io_foreach (\<lambda>x. io_emit (g x)) xs) = Inr ()"
  by (induction xs) (simp_all add: outcome_bind bind_def)

section \<open>Fail-stop runs\<close>

lemma fail_stop_return [simp]: "fail_stop failed (io_return x)"
  by (simp add: fail_stop_def)

lemma fail_stop_lift [simp]: "fail_stop failed (io_lift r)"
  by (simp add: fail_stop_def split: sum.splits)

lemma fail_stop_emit: "failed ev = None \<Longrightarrow> fail_stop failed (io_emit ev)"
  by (simp add: fail_stop_def)

lemma fail_stop_call: "failed ev = err_of r \<Longrightarrow> fail_stop failed (io_call ev r)"
  by (simp add: fail_stop_def err_of_def split: sum.splits)

lemma fail_stop_bind:
  assumes ap: "appends c" "\<And>x. appends (f x)"
      and c: "fail_stop failed c" and f: "\<And>x. fail_stop failed (f x)"
  shows "fail_stop failed (io_bind c f)"
proof (cases "outcome c")
  case (Inl e)
  with c show ?thesis
    by (simp add: fail_stop_def events_bind[OF ap] outcome_bind[OF ap] bind_def)
next
  case (Inr x)
  with c have q: "list_all (\<lambda>ev. failed ev = None) (events c)"
    by (simp add: fail_stop_def)
  show ?thesis
  proof (cases "outcome (f x)")
    case r: (Inr y)
    with f[of x] q Inr show ?thesis
      by (simp add: fail_stop_def events_bind[OF ap] outcome_bind[OF ap] bind_def)
  next
    case l: (Inl e)
    with f[of x] have
      "list_all (\<lambda>ev. failed ev = None) (events (f x)) \<or>
       (events (f x) \<noteq> [] \<and> list_all (\<lambda>ev. failed ev = None) (butlast (events (f x))) \<and>
        failed (last (events (f x))) = Some e)"
      by (simp add: fail_stop_def)
    then show ?thesis
      using q Inr l
      by (auto simp: fail_stop_def events_bind[OF ap] outcome_bind[OF ap] bind_def
          butlast_append)
  qed
qed

lemma fail_stop_foreach_emit:
  "(\<And>x. failed (g x) = None) \<Longrightarrow> fail_stop failed (io_foreach (\<lambda>x. io_emit (g x)) xs)"
  by (simp add: fail_stop_def list_all_iff)

lemma fail_stopD:
  assumes "fail_stop failed c" and "i < length (events c)" and "failed (events c ! i) = Some e"
  shows "Suc i = length (events c) \<and> outcome c = Inl e"
proof -
  from assms(2,3) have nq: "\<not> list_all (\<lambda>ev. failed ev = None) (events c)"
    by (auto simp: list_all_length)
  with assms(1) obtain e' where o: "outcome c = Inl e'"
    and ne: "events c \<noteq> []"
    and b: "list_all (\<lambda>ev. failed ev = None) (butlast (events c))"
    and l: "failed (last (events c)) = Some e'"
    by (cases "outcome c") (auto simp: fail_stop_def)
  have "\<not> i < length (butlast (events c))"
  proof
    assume "i < length (butlast (events c))"
    with b have "failed (butlast (events c) ! i) = None" by (simp add: list_all_length)
    moreover have "butlast (events c) ! i = events c ! i"
      using \<open>i < length (butlast (events c))\<close> by (simp add: nth_butlast)
    ultimately show False using assms(3) by simp
  qed
  with assms(2) have i: "Suc i = length (events c)" by simp
  with ne have "events c ! i = last (events c)"
    by (metis diff_Suc_1 last_conv_nth)
  with l assms(3) have "e' = e" by simp
  with o i show ?thesis by simp
qed

section \<open>Properties of the service-area notebook\<close>

subsection \<open>The input facilities\<close>

text \<open>
  C5: the fire-station feature set holds exactly two point features. The first has as
  \<open>x\<close> the float parse of the text before the comma of \<^verbatim>\<open>'139.546910,35.695729'\<close> and as
  \<open>y\<close> the float parse of the text after it; the second likewise for
  \<^verbatim>\<open>'139.673726,35.697988'\<close>. The declared geometry type is \<open>esriGeometryPoint\<close> and the
  spatial reference is \<^verbatim>\<open>{'latestWkid': 4326}\<close>. The float parse is whatever \<^verbatim>\<open>float\<close>
  returns on the four texts.
\<close>

theorem fire_station_fset_from_literals:
  assumes "pyfloat ''139.546910'' = Inr x1" and "pyfloat ''35.695729'' = Inr y1"
      and "pyfloat ''139.673726'' = Inr x2" and "pyfloat ''35.697988'' = Inr y2"
  shows "fire_station_1_coord = ''139.546910'' @ '','' @ ''35.695729'' \<and>
         fire_station_2_coord = ''139.673726'' @ '','' @ ''35.697988'' \<and>
         fire_station_fset pyfloat =
           Inr \<lparr>features = [\<lparr>geometry = [(''x'', x1), (''y'', y1)], attributes = None\<rparr>,
                            \<lparr>geometry = [(''x'', x2), (''y'', y2)], attributes = None\<rparr>],
                geometry_type = Some ''esriGeometryPoint'',
                spatial_reference = Some [(''latestWkid'', VInt 4326)]\<rparr>"
  using assms
  by (simp add: fire_station_fset_def point_feature_def fire_station_1_coord_def
      fire_station_2_coord_def list_index_def bind_def)

theorem fire_station_fset_from_literals_witness:
  "fire_station_fset literal_float =
     Inr \<lparr>features = [\<lparr>geometry = [(''x'', ''139.546910''), (''y'', ''35.695729'')], attributes = None\<rparr>,
                      \<lparr>geometry = [(''x'', ''139.673726''), (''y'', ''35.697988'')], attributes = None\<rparr>],
          geometry_type = Some ''esriGeometryPoint'',
          spatial_reference = Some [(''latestWkid'', VInt 4326)]\<rparr>"
  using fire_station_fset_from_literals
          [of literal_float "''139.546910''" "''35.695729''" "''139.673726''" "''35.697988''"]
  by (simp add: literal_float_def)

subsection \<open>Travel-mode selection\<close>

lemma filter_err_all_named:
  "\<forall>t\<in>set modes. map_of t ''name'' \<noteq> None \<Longrightarrow>
   filter_err named_trucking_time modes = Inr (filter trucking_time modes)"
  by (induction modes)
     (auto simp: named_trucking_time_def getitem_def bind_def trucking_time_def split: option.splits)

lemma first_of_filter:
  "list_index (filter P xs) 0 = (case find P xs of None \<Rightarrow> Inl IndexError | Some x \<Rightarrow> Inr x)"
  by (induction xs) (auto simp: list_index_def)

text \<open>
  C6, as the claim states it, fails: a travel mode of the response that has no key
  \<open>name\<close> makes the comprehension raise KeyError, whether or not a mode named Trucking
  Time is in the list. In the first response below the second mode is named Trucking
  Time and no mode is selected; in the second no mode has that name and the exception is
  not an index error.
\<close>

theorem truck_mode_nameless_counterexample:
  "find trucking_time [[(''id'', VInt 1)], [(''name'', VStr ''Trucking Time'')]]
     = Some [(''name'', VStr ''Trucking Time'')] \<and>
   truck_mode \<lparr>supportedTravelModes =
       Some [[(''id'', VInt 1)], [(''name'', VStr ''Trucking Time'')]]\<rparr> = Inl (KeyError ''name'') \<and>
   find trucking_time [[(''id'', VInt 1)]] = None \<and>
   truck_mode \<lparr>supportedTravelModes = Some [[(''id'', VInt 1)]]\<rparr> = Inl (KeyError ''name'')"
  by (simp add: truck_mode_def subscript_def bind_def named_trucking_time_def getitem_def
      trucking_time_def)

text \<open>
  C6, amended: for every travel-modes response whose supportedTravelModes list consists
  of modes that each have a key \<open>name\<close>: if the list contains a mode named Trucking Time,
  the selected mode is the first such mode in list order, and if it contains none, the
  selection raises an index error.
\<close>

theorem truck_mode_first_named:
  assumes "supportedTravelModes tm = Some modes"
      and "\<forall>t\<in>set modes. map_of t ''name'' \<noteq> None"
  shows "truck_mode tm =
           (case find trucking_time modes of None \<Rightarrow> Inl IndexError | Some t \<Rightarrow> Inr t)"
  using assms(1) filter_err_all_named[OF assms(2)]
  by (simp add: truck_mode_def subscript_def bind_def first_of_filter)

theorem truck_mode_first_named_witness:
  "truck_mode \<lparr>supportedTravelModes =
       Some [[(''name'', VStr ''Driving Time''), (''id'', VInt 1)],
             [(''name'', VStr ''Trucking Time''), (''id'', VInt 2)],
             [(''name'', VStr ''Trucking Time''), (''id'', VInt 3)]]\<rparr>
     = Inr [(''name'', VStr ''Trucking Time''), (''id'', VInt 2)] \<and>
   truck_mode \<lparr>supportedTravelModes = Some [[(''name'', VStr ''Driving Time''), (''id'', VInt 1)]]\<rparr>
     = Inl IndexError"
  using truck_mode_first_named
          [of "\<lparr>supportedTravelModes =
                  Some [[(''name'', VStr ''Driving Time''), (''id'', VInt 1)],
                        [(''name'', VStr ''Trucking Time''), (''id'', VInt 2)],
                        [(''name'', VStr ''Trucking Time''), (''id'', VInt 3)]]\<rparr>"
              "[[(''name'', VStr ''Driving Time''), (''id'', VInt 1)],
                [(''name'', VStr ''Trucking Time''), (''id'', VInt 2)],
                [(''name'', VStr ''Trucking Time''), (''id'', VInt 3)]]"]
        truck_mode_first_named
          [of "\<lparr>supportedTravelModes = Some [[(''name'', VStr ''Driving Time''), (''id'', VInt 1)]]\<rparr>"
              "[[(''name'', VStr ''Driving Time''), (''id'', VInt 1)]]"]
  by (simp add: trucking_time_def)

subsection \<open>Reshaping the response\<close>

lemma map_err_polygon_complete:
  "list_all complete_polygon ps \<Longrightarrow> map_err polygon_feature ps = Inr (map passthrough ps)"
  by (induction ps)
     (auto simp: polygon_feature_def subscript_def bind_def passthrough_def complete_polygon_def)

lemma map_err_polygon_Inr:
  "map_err polygon_feature ps = Inr fs \<Longrightarrow> list_all complete_polygon ps"
  by (induction ps arbitrary: fs)
     (auto simp: polygon_feature_def subscript_def bind_def complete_polygon_def
           split: option.splits sum.splits)

text \<open>
  C4: reshaping the service-area response is a passthrough. A feature set is constructed
  exactly when the response has the keys the cells subscript, and then it has one feature
  per entry of \<^verbatim>\<open>result['saPolygons']['features']\<close>, in the same order, each with the
  geometry and the attributes of its entry, and its geometry type and spatial reference
  are the response's \<open>geometryType\<close> and \<open>spatialReference\<close>.
\<close>

theorem reshape_service_area_passthrough:
  "reshape_service_area result = Inr fset \<longleftrightarrow>
     (\<exists>sa polys gt sr.
        saPolygons result = Some sa \<and> sp_features sa = Some polys \<and>
        sp_geometryType sa = Some gt \<and> sp_spatialReference sa = Some sr \<and>
        list_all complete_polygon polys \<and>
        fset = \<lparr>features = map passthrough polys, geometry_type = Some gt,
                spatial_reference = Some sr\<rparr>)"
proof
  assume r: "reshape_service_area result = Inr fset"
  then obtain sa where sa: "saPolygons result = Some sa"
    by (auto simp: reshape_service_area_def poly_feat_list_def subscript_def bind_def
             split: option.splits)
  from r sa obtain polys where polys: "sp_features sa = Some polys"
    by (auto simp: reshape_service_area_def poly_feat_list_def subscript_def bind_def
             split: option.splits)
  from r sa polys obtain pfl where pfl: "map_err polygon_feature polys = Inr pfl"
    by (auto simp: reshape_service_area_def poly_feat_list_def subscript_def bind_def
             split: sum.splits)
  have ok: "list_all complete_polygon polys"
    using pfl by (rule map_err_polygon_Inr)
  have pfl': "pfl = map passthrough polys"
    using pfl map_err_polygon_complete[OF ok] by simp
  from r sa polys pfl obtain gt sr where
    "sp_geometryType sa = Some gt" "sp_spatialReference sa = Some sr"
    "fset = \<lparr>features = pfl, geometry_type = Some gt, spatial_reference = Some sr\<rparr>"
    by (auto simp: reshape_service_area_def poly_feat_list_def service_area_fset_def
                   subscript_def bind_def split: option.splits)
  with sa polys ok pfl' show "\<exists>sa polys gt sr.
        saPolygons result = Some sa \<and> sp_features sa = Some polys \<and>
        sp_geometryType sa = Some gt \<and> sp_spatialReference sa = Some sr \<and>
        list_all complete_polygon polys \<and>
        fset = \<lparr>features = map passthrough polys, geometry_type = Some gt,
                spatial_reference = Some sr\<rparr>"
    by blast
next
  assume "\<exists>sa polys gt sr.
        saPolygons result = Some sa \<and> sp_features sa = Some polys \<and>
        sp_geometryType sa = Some gt \<and> sp_spatialReference sa = Some sr \<and>
        list_all complete_polygon polys \<and>
        fset = \<lparr>features = map passthrough polys, geometry_type = Some gt,
                spatial_reference = Some sr\<rparr>"
  then show "reshape_service_area result = Inr fset"
    by (auto simp: reshape_service_area_def poly_feat_list_def service_area_fset_def
                   subscript_def bind_def map_err_polygon_complete)
qed

theorem reshape_service_area_passthrough_witness:
  "reshape_service_area sample_sa_result =
     Inr \<lparr>features =
            [\<lparr>geometry = ''ring 1 (10-15)'',
              attributes = Some [(''FacilityID'', FInt 1), (''FromBreak'', FInt 10), (''ToBreak'', FInt 15)]\<rparr>,
             \<lparr>geometry = ''ring 1 (5-10)'',
              attributes = Some [(''FacilityID'', FInt 1), (''FromBreak'', FInt 5), (''ToBreak'', FInt 10)]\<rparr>,
             \<lparr>geometry = ''ring 1 (0-5)'',
              attributes = Some [(''FacilityID'', FInt 1), (''FromBreak'', FInt 0), (''ToBreak'', FInt 5)]\<rparr>],
          geometry_type = Some ''esriGeometryPolygon'',
          spatial_reference = Some [(''wkid'', VInt 4326), (''latestWkid'', VInt 4326)]\<rparr>"
  by (subst reshape_service_area_passthrough)
     (simp add: sample_sa_result_def complete_polygon_def passthrough_def)

subsection \<open>Rendering the service areas\<close>

lemma setitem_setitem: "setitem (setitem d k v) k v' = setitem d k v'"
  by (induction d) auto

lemma int_key_number [simp]:
  "int_key (FInt i) = Some i"
  "int_key (FFloat (Finite (of_int i))) = Some i"
  by (simp_all add: int_key_def)

lemma int_key_number_only:
  assumes "int_key v = Some i" and "i \<noteq> 0" and "i \<noteq> 1"
  shows "v = FInt i \<or> v = FFloat (Finite (of_int i))"
proof (cases v)
  case (FFloat d)
  with assms show ?thesis
    by (cases d) (auto simp: int_key_def split: if_splits)
qed (use assms in \<open>auto simp: int_key_def split: if_splits\<close>)

lemma draw_one_in_colors:
  assumes "break_in_colors f"
  shows "colors_getitem float_str (the (to_break f)) = Inr (break_color f)"
    and "attribute f ''ToBreak'' = Inr (the (to_break f))"
    and "py_str float_str (the (to_break f)) @ '' minutes'' = break_minutes float_str f"
proof -
  from assms consider "break_is f 5" | "break_is f 10" | "break_is f 15"
    by (auto simp: break_in_colors_def)
  then show "colors_getitem float_str (the (to_break f)) = Inr (break_color f)"
  proof cases
    case 1
    then have "int_key (the (to_break f)) = Some 5"
      using int_key_number[of 5] by (auto simp: break_is_def)
    with 1 show ?thesis by (simp add: colors_getitem_def colors_def break_color_def)
  next
    case 2
    then have k: "int_key (the (to_break f)) = Some 10"
      using int_key_number[of 10] by (auto simp: break_is_def)
    from 2 have "\<not> break_is f 5" by (auto simp: break_is_def)
    with k 2 show ?thesis by (simp add: colors_getitem_def colors_def break_color_def)
  next
    case 3
    then have k: "int_key (the (to_break f)) = Some 15"
      using int_key_number[of 15] by (auto simp: break_is_def)
    from 3 have "\<not> break_is f 5" "\<not> break_is f 10" by (auto simp: break_is_def)
    with k show ?thesis by (simp add: colors_getitem_def colors_def break_color_def)
  qed
  from assms show "attribute f ''ToBreak'' = Inr (the (to_break f))"
    by (auto simp: break_in_colors_def break_is_def to_break_def attribute_def getitem_def
        split: option.splits)
  from assms show "py_str float_str (the (to_break f)) @ '' minutes'' = break_minutes float_str f"
    by (auto simp: break_in_colors_def break_is_def break_minutes_def py_str_def str_int_def)
qed

lemma found_in_colors:
  assumes "attribute f ''ToBreak'' = Inr v" and "colors_getitem float_str v = Inr c"
  shows "break_in_colors f"
proof -
  from assms(1) have tb: "to_break f = Some v"
    by (auto simp: attribute_def getitem_def to_break_def split: option.splits)
  from assms(2) obtain i where k: "int_key v = Some i" and "map_of colors i = Some c"
    by (auto simp: colors_getitem_def split: option.splits)
  then have i: "i = 5 \<or> i = 10 \<or> i = 15"
    by (auto simp: colors_def split: if_splits)
  then have "i \<noteq> 0" and "i \<noteq> 1" by auto
  from int_key_number_only[OF k this] tb have "break_is f i"
    by (auto simp: break_is_def)
  with i show ?thesis by (auto simp: break_in_colors_def)
qed

lemma draw_one_not_in_colors:
  assumes "\<not> break_in_colors f" "attributes f \<noteq> None"
  shows "\<exists>k. bind (attribute f ''ToBreak'') (colors_getitem float_str) = Inl (KeyError k)"
proof (cases "attribute f ''ToBreak''")
  case (Inl e)
  with assms(2) show ?thesis
    by (auto simp: attribute_def getitem_def bind_def split: option.splits)
next
  case (Inr v)
  with assms(1) found_in_colors[OF Inr] have "\<And>c. colors_getitem float_str v \<noteq> Inr c"
    by blast
  then have "\<exists>k. colors_getitem float_str v = Inl (KeyError k)"
    by (cases "int_key v"; cases "map_of colors (the (int_key v))")
       (auto simp: colors_getitem_def)
  with Inr show ?thesis by (simp add: bind_def)
qed

lemma draw_all_in_colors:
  "list_all break_in_colors fs \<Longrightarrow>
   \<exists>fill'. draw_service_areas float_str fill fs evs
             = (evs @ map (drawn_area float_str fill) fs, Inr fill')"
proof (induction fs arbitrary: fill evs)
  case Nil
  then show ?case by (simp add: io_return_def)
next
  case (Cons f fs)
  then have f: "break_in_colors f" and fs: "list_all break_in_colors fs" by simp_all
  from Cons.IH[OF fs, of "setitem fill ''color'' (SColor (break_color f))"
                      "evs @ [drawn_area float_str fill f]"]
  show ?case
    by (auto simp: draw_one_in_colors[OF f] bind_def io_bind_def io_lift_def io_emit_def
                   drawn_area_def setitem_setitem)
qed

lemma draw_some_not_in_colors:
  "\<not> list_all break_in_colors fs \<Longrightarrow> list_all (\<lambda>f. attributes f \<noteq> None) fs \<Longrightarrow>
   \<exists>k. draw_service_areas float_str fill fs evs =
         (evs @ map (drawn_area float_str fill) (takeWhile break_in_colors fs), Inl (KeyError k))"
proof (induction fs arbitrary: fill evs)
  case Nil
  then show ?case by simp
next
  case (Cons f fs)
  show ?case
  proof (cases "break_in_colors f")
    case True
    with Cons.prems have "\<not> list_all break_in_colors fs"
      and "list_all (\<lambda>f. attributes f \<noteq> None) fs" by simp_all
    from Cons.IH[OF this, of "setitem fill ''color'' (SColor (break_color f))"
                          "evs @ [drawn_area float_str fill f]"]
    show ?thesis using True
      by (auto simp: draw_one_in_colors[OF True] bind_def io_bind_def io_lift_def io_emit_def
                     drawn_area_def setitem_setitem)
  next
    case False
    with Cons.prems have "attributes f \<noteq> None" by simp
    from draw_one_not_in_colors[OF False this, of float_str] show ?thesis using False
      by (auto simp: io_bind_def io_lift_def)
  qed
qed

text \<open>
  C8: the rendering loop completes only if every polygon's \<open>ToBreak\<close> attribute is one
  of 5, 10 and 15, written as an integer or as a float (5.0, 10.0, 15.0). If that holds,
  every polygon is drawn, in order, with the fill colour of its \<open>ToBreak\<close> value and the
  popup \<open><ToBreak> minutes\<close>, where \<open><ToBreak>\<close> is the text of the attribute as it is
  stored: the digits of an integer, the text of a float. If it does not hold (the
  polygons having attribute dictionaries, as all polygons built by the reshaping cell
  have), the loop raises a key lookup error at the first polygon whose \<open>ToBreak\<close> is
  another value or is missing: the polygons before it have been drawn, that polygon and
  the ones after it are not. This holds whatever the text of a float is.
\<close>

theorem draw_service_areas_by_break:
  "(list_all break_in_colors fs \<longrightarrow>
      (\<exists>fill'. draw_service_areas float_str fill fs evs
                 = (evs @ map (drawn_area float_str fill) fs, Inr fill'))) \<and>
   (\<not> list_all break_in_colors fs \<and> list_all (\<lambda>f. attributes f \<noteq> None) fs \<longrightarrow>
      (\<exists>k. draw_service_areas float_str fill fs evs =
             (evs @ map (drawn_area float_str fill) (takeWhile break_in_colors fs),
              Inl (KeyError k))))"
  using draw_all_in_colors[of fs float_str fill evs]
        draw_some_not_in_colors[of fs float_str fill evs]
  by blast

theorem draw_service_areas_by_break_witness:
  "fst (draw_service_areas integral_float_str fill_symbol sample_areas
          ([] :: (string, string) sa_event list)) =
     [SA_Draw ''ring 1 (10-15)''
        [(''type'', SStr ''esriSFS''), (''style'', SStr ''esriSFSSolid''), (''color'', SColor [255, 0, 0, 90])]
        [(''title'', ''Service area''), (''content'', ''15 minutes'')],
      SA_Draw ''ring 1 (5-10)''
        [(''type'', SStr ''esriSFS''), (''style'', SStr ''esriSFSSolid''), (''color'', SColor [255, 255, 0, 90])]
        [(''title'', ''Service area''), (''content'', ''10 minutes'')],
      SA_Draw ''ring 1 (0-5)''
        [(''type'', SStr ''esriSFS''), (''style'', SStr ''esriSFSSolid''), (''color'', SColor [0, 128, 0, 90])]
        [(''title'', ''Service area''), (''content'', ''5 minutes'')]] \<and>
   (\<exists>fill'. snd (draw_service_areas integral_float_str fill_symbol sample_areas
                   ([] :: (string, string) sa_event list)) = Inr fill') \<and>
   fst (draw_service_areas integral_float_str fill_symbol sample_areas_float
          ([] :: (string, string) sa_event list)) =
     [SA_Draw ''ring 2 (0-5)''
        [(''type'', SStr ''esriSFS''), (''style'', SStr ''esriSFSSolid''), (''color'', SColor [0, 128, 0, 90])]
        [(''title'', ''Service area''), (''content'', ''5.0 minutes'')],
      SA_Draw ''ring 2 (5-10)''
        [(''type'', SStr ''esriSFS''), (''style'', SStr ''esriSFSSolid''), (''color'', SColor [255, 255, 0, 90])]
        [(''title'', ''Service area''), (''content'', ''10.0 minutes'')]] \<and>
   (\<exists>fill'. snd (draw_service_areas integral_float_str fill_symbol sample_areas_float
                   ([] :: (string, string) sa_event list)) = Inr fill') \<and>
   fst (draw_service_areas integral_float_str fill_symbol sample_areas_other
          ([] :: (string, string) sa_event list)) =
     [SA_Draw ''ring 1 (0-5)''
        [(''type'', SStr ''esriSFS''), (''style'', SStr ''esriSFSSolid''), (''color'', SColor [0, 128, 0, 90])]
        [(''title'', ''Service area''), (''content'', ''5 minutes'')]] \<and>
   (\<exists>k. snd (draw_service_areas integral_float_str fill_symbol sample_areas_other
                ([] :: (string, string) sa_event list)) = Inl (KeyError k)) \<and>
   fst (draw_service_areas integral_float_str fill_symbol sample_areas_float_other
          ([] :: (string, string) sa_event list)) =
     [SA_Draw ''ring 2 (0-5)''
        [(''type'', SStr ''esriSFS''), (''style'', SStr ''esriSFSSolid''), (''color'', SColor [0, 128, 0, 90])]
        [(''title'', ''Service area''), (''content'', ''5.0 minutes'')]] \<and>
   (\<exists>k. snd (draw_service_areas integral_float_str fill_symbol sample_areas_float_other
                ([] :: (string, string) sa_event list)) = Inl (KeyError k))"
proof -
  have ok: "list_all break_in_colors sample_areas"
    by (simp add: sample_areas_def break_in_colors_def break_is_def to_break_def)
  have ok_float: "list_all break_in_colors sample_areas_float"
    by (simp add: sample_areas_float_def break_in_colors_def break_is_def to_break_def)
  have other: "\<not> list_all break_in_colors sample_areas_other \<and>
               list_all (\<lambda>f. attributes f \<noteq> None) sample_areas_other"
    by (simp add: sample_areas_other_def break_in_colors_def break_is_def to_break_def)
  have float_other: "\<not> list_all break_in_colors sample_areas_float_other \<and>
               list_all (\<lambda>f. attributes f \<noteq> None) sample_areas_float_other"
    by (simp add: sample_areas_float_other_def break_in_colors_def break_is_def to_break_def)
  have drawn: "map (drawn_area integral_float_str fill_symbol) sample_areas =
     [SA_Draw ''ring 1 (10-15)''
        [(''type'', SStr ''esriSFS''), (''style'', SStr ''esriSFSSolid''), (''color'', SColor [255, 0, 0, 90])]
        [(''title'', ''Service area''), (''content'', ''15 minutes'')],
      SA_Draw ''ring 1 (5-10)''
        [(''type'', SStr ''esriSFS''), (''style'', SStr ''esriSFSSolid''), (''color'', SColor [255, 255, 0, 90])]
        [(''title'', ''Service area''), (''content'', ''10 minutes'')],
      SA_Draw ''ring 1 (0-5)''
        [(''type'', SStr ''esriSFS''), (''style'', SStr ''esriSFSSolid''), (''color'', SColor [0, 128, 0, 90])]
        [(''title'', ''Service area''), (''content'', ''5 minutes'')]]"
    by (simp add: sample_areas_def drawn_area_def fill_symbol_def to_break_def break_is_def
        break_color_def break_minutes_def)
  have drawn_float: "map (drawn_area integral_float_str fill_symbol) sample_areas_float =
     [SA_Draw ''ring 2 (0-5)''
        [(''type'', SStr ''esriSFS''), (''style'', SStr ''esriSFSSolid''), (''color'', SColor [0, 128, 0, 90])]
        [(''title'', ''Service area''), (''content'', ''5.0 minutes'')],
      SA_Draw ''ring 2 (5-10)''
        [(''type'', SStr ''esriSFS''), (''style'', SStr ''esriSFSSolid''), (''color'', SColor [255, 255, 0, 90])]
        [(''title'', ''Service area''), (''content'', ''10.0 minutes'')]]"
    by (simp add: sample_areas_float_def drawn_area_def fill_symbol_def to_break_def break_is_def
        break_color_def break_minutes_def integral_float_str_def str_int_def)
  have drawn_other: "map (drawn_area integral_float_str fill_symbol)
                         (takeWhile break_in_colors sample_areas_other) =
     [SA_Draw ''ring 1 (0-5)''
        [(''type'', SStr ''esriSFS''), (''style'', SStr ''esriSFSSolid''), (''color'', SColor [0, 128, 0, 90])]
        [(''title'', ''Service area''), (''content'', ''5 minutes'')]]"
    by (simp add: sample_areas_other_def drawn_area_def fill_symbol_def to_break_def break_is_def
        break_color_def break_minutes_def break_in_colors_def)
  have drawn_float_other: "map (drawn_area integral_float_str fill_symbol)
                         (takeWhile break_in_colors sample_areas_float_other) =
     [SA_Draw ''ring 2 (0-5)''
        [(''type'', SStr ''esriSFS''), (''style'', SStr ''esriSFSSolid''), (''color'', SColor [0, 128, 0, 90])]
        [(''title'', ''Service area''), (''content'', ''5.0 minutes'')]]"
    by (simp add: sample_areas_float_other_def drawn_area_def fill_symbol_def to_break_def
        break_is_def break_color_def break_minutes_def break_in_colors_def
        integral_float_str_def str_int_def)
  from ok draw_service_areas_by_break[of sample_areas integral_float_str fill_symbol
                                         "[] :: (string, string) sa_event list"]
  obtain fill1 where a: "draw_service_areas integral_float_str fill_symbol sample_areas
        ([] :: (string, string) sa_event list) =
      (map (drawn_area integral_float_str fill_symbol) sample_areas, Inr fill1)"
    by auto
  from ok_float draw_service_areas_by_break[of sample_areas_float integral_float_str fill_symbol
                                         "[] :: (string, string) sa_event list"]
  obtain fill2 where b: "draw_service_areas integral_float_str fill_symbol sample_areas_float
        ([] :: (string, string) sa_event list) =
      (map (drawn_area integral_float_str fill_symbol) sample_areas_float, Inr fill2)"
    by auto
  from other draw_service_areas_by_break[of sample_areas_other integral_float_str fill_symbol
                                            "[] :: (string, string) sa_event list"]
  obtain k1 where c: "draw_service_areas integral_float_str fill_symbol sample_areas_other
        ([] :: (string, string) sa_event list) =
      (map (drawn_area integral_float_str fill_symbol) (takeWhile break_in_colors sample_areas_other),
       Inl (KeyError k1))"
    by auto
  from float_other
       draw_service_areas_by_break[of sample_areas_float_other integral_float_str fill_symbol
                                      "[] :: (string, string) sa_event list"]
  obtain k2 where d: "draw_service_areas integral_float_str fill_symbol sample_areas_float_other
        ([] :: (string, string) sa_event list) =
      (map (drawn_area integral_float_str fill_symbol)
           (takeWhile break_in_colors sample_areas_float_other),
       Inl (KeyError k2))"
    by auto
  show ?thesis
    unfolding a b c d by (simp add: drawn drawn_float drawn_other drawn_float_other)
qed

section \<open>Properties of the location-allocation notebook\<close>

subsection \<open>Tables\<close>

lemma mask_select_Nil [simp]: "mask_select [] keep = []"
  by (simp add: mask_select_def)

lemma mask_select_Nil2 [simp]: "mask_select xs [] = []"
  by (simp add: mask_select_def)

lemma mask_select_Cons [simp]:
  "mask_select (x # xs) (b # bs) = (if b then x # mask_select xs bs else mask_select xs bs)"
  by (simp add: mask_select_def)

lemma mask_select_nths:
  "mask_select xs keep = nths xs {i. i < length keep \<and> keep ! i}"
proof (induction xs arbitrary: keep)
  case Nil
  then show ?case by simp
next
  case (Cons x xs)
  show ?case
  proof (cases keep)
    case Nil
    then show ?thesis by simp
  next
    case (Cons b bs)
    then show ?thesis using Cons.IH[of bs] by (simp add: nths_Cons)
  qed
qed

lemma set_positions: "set (positions P xs) = {i. i < length xs \<and> P (xs ! i)}"
  by (auto simp: positions_def)

lemma mask_select_map: "mask_select vs (map P xs) = nths vs (set (positions P xs))"
proof -
  have "{i. i < length (map P xs) \<and> map P xs ! i} = {i. i < length xs \<and> P (xs ! i)}"
    by auto
  then show ?thesis by (simp add: mask_select_nths set_positions)
qed

lemma select_rows_map: "select_rows df (map P xs) = rows_at df (positions P xs)"
  by (simp add: select_rows_def rows_at_def mask_select_map)

lemma select_rows_invert_map:
  "select_rows df (invert (map P xs)) = rows_at df (positions (\<lambda>x. \<not> P x) xs)"
  using select_rows_map[of df "\<lambda>x. \<not> P x" xs] by (simp add: invert_def comp_def)

lemma project_ok:
  "\<forall>c\<in>set cs. map_of df c \<noteq> None \<Longrightarrow> project df cs = Inr (map (\<lambda>c. (c, column df c)) cs)"
  unfolding project_def
  by (induction cs) (auto simp: getitem_def bind_def column_def)

lemma project_bad:
  "c \<in> set cs \<Longrightarrow> map_of df c = None \<Longrightarrow> \<exists>k. project df cs = Inl (KeyError k)"
  unfolding project_def
  by (induction cs) (auto simp: getitem_def bind_def split: option.splits sum.splits)

lemma map_of_setitem: "map_of (setitem d k v) = (map_of d)(k \<mapsto> v)"
  by (induction d) (auto simp: fun_eq_iff)

lemma keys_setitem: "fst ` set (setitem d k v) = insert k (fst ` set d)"
  by (simp add: dom_map_of_conv_image_fst[symmetric] map_of_setitem)

lemma map_of_filter_key: "map_of (filter (\<lambda>kv. fst kv \<noteq> c) d) = (map_of d)(c := None)"
  by (induction d) (auto simp: fun_eq_iff)

lemma map_fst_setitem_others:
  "filter (\<lambda>c. c \<noteq> k) (map fst (setitem d k v)) = filter (\<lambda>c. c \<noteq> k) (map fst d)"
  by (induction d) auto

subsection \<open>The demand-point weights\<close>

text \<open>
  C10: the weighting step only renames a column. When the patient-locations table has a
  column \<open>num_patients\<close>, the weighted table has a column \<open>weight\<close> with the values of
  the original \<open>num_patients\<close>, row by row, has no column \<open>num_patients\<close>, and every
  other column (the geometry column among them) is the original column, in the original
  order; as a table is the list of its columns, no row is added, removed or changed.
  When the table has no column \<open>num_patients\<close>, the cell raises KeyError.
\<close>

theorem patient_locations_weighted_renames:
  "(map_of df ''num_patients'' = Some col \<longrightarrow>
      (\<exists>df'. patient_locations_weighted df = Inr df' \<and>
             map_of df' ''weight'' = Some col \<and>
             map_of df' ''num_patients'' = None \<and>
             (\<forall>c. c \<noteq> ''weight'' \<and> c \<noteq> ''num_patients'' \<longrightarrow> map_of df' c = map_of df c) \<and>
             filter (\<lambda>c. c \<noteq> ''weight'') (map fst df') =
               filter (\<lambda>c. c \<noteq> ''weight'' \<and> c \<noteq> ''num_patients'') (map fst df))) \<and>
   (map_of df ''num_patients'' = None \<longrightarrow>
      patient_locations_weighted df = Inl (KeyError ''num_patients''))"
proof (intro conjI impI)
  assume col: "map_of df ''num_patients'' = Some col"
  then have "''num_patients'' \<in> fst ` set df"
    by (metis domI dom_map_of_conv_image_fst)
  then have r: "patient_locations_weighted df =
          Inr (filter (\<lambda>kv. fst kv \<noteq> ''num_patients'') (setitem df ''weight'' col))"
    using col by (simp add: patient_locations_weighted_def getitem_def bind_def drop_column_def keys_setitem)
  have o: "filter (\<lambda>c. c \<noteq> ''weight'') (map fst (filter (\<lambda>kv. fst kv \<noteq> ''num_patients'') (setitem df ''weight'' col)))
      = filter (\<lambda>c. c \<noteq> ''weight'' \<and> c \<noteq> ''num_patients'') (map fst df)"
  proof -
    have "map fst (filter (\<lambda>kv. fst kv \<noteq> ''num_patients'') (setitem df ''weight'' col))
        = filter (\<lambda>c. c \<noteq> ''num_patients'') (map fst (setitem df ''weight'' col))"
      by (simp add: filter_map comp_def)
    then have "filter (\<lambda>c. c \<noteq> ''weight'') (map fst (filter (\<lambda>kv. fst kv \<noteq> ''num_patients'') (setitem df ''weight'' col)))
        = filter (\<lambda>c. c \<noteq> ''num_patients'') (filter (\<lambda>c. c \<noteq> ''weight'') (map fst (setitem df ''weight'' col)))"
      by (simp add: conj_commute)
    also have "\<dots> = filter (\<lambda>c. c \<noteq> ''num_patients'') (filter (\<lambda>c. c \<noteq> ''weight'') (map fst df))"
      by (simp only: map_fst_setitem_others)
    finally show ?thesis by (simp add: conj_commute)
  qed
  show "\<exists>df'. patient_locations_weighted df = Inr df' \<and>
             map_of df' ''weight'' = Some col \<and>
             map_of df' ''num_patients'' = None \<and>
             (\<forall>c. c \<noteq> ''weight'' \<and> c \<noteq> ''num_patients'' \<longrightarrow> map_of df' c = map_of df c) \<and>
             filter (\<lambda>c. c \<noteq> ''weight'') (map fst df') =
               filter (\<lambda>c. c \<noteq> ''weight'' \<and> c \<noteq> ''num_patients'') (map fst df)"
    using o by (simp add: r map_of_filter_key map_of_setitem)
next
  assume "map_of df ''num_patients'' = None"
  then show "patient_locations_weighted df = Inl (KeyError ''num_patients'')"
    by (simp add: patient_locations_weighted_def getitem_def bind_def)
qed


theorem patient_locations_weighted_renames_witness:
  "patient_locations_weighted sample_patients =
     Inr [(''OBJECTID'', [Scalar (VInt 1), Scalar (VInt 2)]),
          (''zip'', [Scalar (VStr ''93277''), Scalar (VStr ''93555'')]),
          (''SHAPE'', [Shape ''patients 1'', Shape ''patients 2'']),
          (''weight'', [Scalar (VInt 3), Scalar (VInt 8)])] \<and>
   patient_locations_weighted sample_candidates = Inl (KeyError ''num_patients'')"
proof -
  have h1: "map_of sample_patients ''num_patients'' = Some [Scalar (VInt 3), Scalar (VInt 8)]"
    by (simp add: sample_patients_def)
  have h2: "map_of sample_candidates ''num_patients'' = None"
    by (simp add: sample_candidates_def)
  from h1 patient_locations_weighted_renames[of sample_patients "[Scalar (VInt 3), Scalar (VInt 8)]"]
  obtain df' where df': "patient_locations_weighted sample_patients = Inr df'"
    and "map_of df' ''weight'' = Some [Scalar (VInt 3), Scalar (VInt 8)]"
    by blast
  have e: "patient_locations_weighted sample_patients =
     Inr [(''OBJECTID'', [Scalar (VInt 1), Scalar (VInt 2)]),
          (''zip'', [Scalar (VStr ''93277''), Scalar (VStr ''93555'')]),
          (''SHAPE'', [Shape ''patients 1'', Shape ''patients 2'']),
          (''weight'', [Scalar (VInt 3), Scalar (VInt 8)])]"
    by (simp add: patient_locations_weighted_def sample_patients_def getitem_def bind_def
        drop_column_def)
  from h2 patient_locations_weighted_renames[of sample_candidates]
  have "patient_locations_weighted sample_candidates = Inl (KeyError ''num_patients'')"
    by blast
  with e show ?thesis by simp
qed

subsection \<open>The visualisation\<close>

text \<open>
  C9: in \<^verbatim>\<open>visualize_locate_allocate_results\<close> the output demand points are split by
  whether their \<open>DemandOID\<close> is among the \<open>DemandOID\<close> values of the allocation lines.
  For every result that has the columns the function subscripts, the function draws the
  allocation lines three times, then the table of the allocated demand points, the table
  of the unallocated ones and the table of the chosen facilities, and sets the zoom. The
  allocated and the unallocated rows are disjoint, together they are all the rows of the
  output demand points, and the chosen facilities are exactly the rows of the output
  facilities whose \<open>FacilityType\<close> is 3 (with the six columns the function keeps).
\<close>

theorem visualize_partitions_demand:
  assumes d: "map_of (output_demand_points result) ''DemandOID'' = Some oids"
      and l: "map_of (output_allocation_lines result) ''DemandOID'' = Some line_oids"
      and f: "\<forall>c\<in>set chosen_columns. map_of (output_facilities result) c \<noteq> None"
  shows "visualize_locate_allocate_results m result zoom_level evs =
           (evs @ [LA_Draw m (output_allocation_lines result) allocation_line_symbol_4,
                   LA_Draw m (output_allocation_lines result) allocation_line_symbol_2,
                   LA_Draw m (output_allocation_lines result) allocation_line_symbol_1,
                   LA_Draw m (rows_at (output_demand_points result) (allocated_rows result))
                     allocated_demand_symbol,
                   LA_Draw m (rows_at (output_demand_points result) (unallocated_rows result))
                     unallocated_demand_symbol,
                   LA_Draw m (rows_at (facility_table result) (chosen_rows result))
                     selected_facilities_symbol,
                   LA_Zoom m zoom_level], Inr ()) \<and>
         set (allocated_rows result) \<inter> set (unallocated_rows result) = {} \<and>
         set (allocated_rows result) \<union> set (unallocated_rows result) = {i. i < length oids} \<and>
         set (allocated_rows result) = {i. i < length oids \<and> oids ! i \<in> set line_oids} \<and>
         set (chosen_rows result) =
           {i. i < length (column (output_facilities result) ''FacilityType'') \<and>
               column (output_facilities result) ''FacilityType'' ! i = Scalar (VInt 3)}"
proof -
  have a: "demand_allocated_df result =
             Inr (rows_at (output_demand_points result) (allocated_rows result))"
    using d l
    by (simp add: demand_allocated_df_def getitem_def bind_def isin_def select_rows_map
        allocated_rows_def column_def)
  have u: "demand_not_allocated_df result =
             Inr (rows_at (output_demand_points result) (unallocated_rows result))"
    using d l
    by (simp add: demand_not_allocated_df_def getitem_def bind_def isin_def select_rows_invert_map
        unallocated_rows_def column_def)
  have p: "facilities_df result = Inr (facility_table result)"
    using project_ok[OF f] by (simp add: facilities_df_def facility_table_def chosen_columns_def)
  have ft: "getitem (facility_table result) ''FacilityType''
              = Inr (column (output_facilities result) ''FacilityType'')"
    by (simp add: facility_table_def chosen_columns_def getitem_def)
  have c: "facilities_chosen_df result =
             Inr (rows_at (facility_table result) (chosen_rows result))"
    by (simp add: facilities_chosen_df_def p ft bind_def select_rows_map chosen_rows_def)
  have v: "visualize_locate_allocate_results m result zoom_level evs =
           (evs @ [LA_Draw m (output_allocation_lines result) allocation_line_symbol_4,
                   LA_Draw m (output_allocation_lines result) allocation_line_symbol_2,
                   LA_Draw m (output_allocation_lines result) allocation_line_symbol_1,
                   LA_Draw m (rows_at (output_demand_points result) (allocated_rows result))
                     allocated_demand_symbol,
                   LA_Draw m (rows_at (output_demand_points result) (unallocated_rows result))
                     unallocated_demand_symbol,
                   LA_Draw m (rows_at (facility_table result) (chosen_rows result))
                     selected_facilities_symbol,
                   LA_Zoom m zoom_level], Inr ())"
    by (simp add: visualize_locate_allocate_results_def a u c io_bind_def io_lift_def io_emit_def)
  have s1: "set (allocated_rows result) = {i. i < length oids \<and> oids ! i \<in> set line_oids}"
    using d l by (simp add: allocated_rows_def set_positions column_def)
  have s2: "set (unallocated_rows result) = {i. i < length oids \<and> oids ! i \<notin> set line_oids}"
    using d l by (simp add: unallocated_rows_def set_positions column_def)
  have s3: "set (chosen_rows result) =
           {i. i < length (column (output_facilities result) ''FacilityType'') \<and>
               column (output_facilities result) ''FacilityType'' ! i = Scalar (VInt 3)}"
    by (simp add: chosen_rows_def set_positions)
  from s1 s2 have s4: "set (allocated_rows result) \<inter> set (unallocated_rows result) = {}" by auto
  from s1 s2 have s5: "set (allocated_rows result) \<union> set (unallocated_rows result) = {i. i < length oids}" by auto
  from v s4 s5 s1 s3 show ?thesis by simp
qed

theorem visualize_partitions_demand_witness:
  "visualize_locate_allocate_results ''map2'' sample_la_result 7 [] =
     ([LA_Draw ''map2'' (output_allocation_lines sample_la_result) allocation_line_symbol_4,
       LA_Draw ''map2'' (output_allocation_lines sample_la_result) allocation_line_symbol_2,
       LA_Draw ''map2'' (output_allocation_lines sample_la_result) allocation_line_symbol_1,
       LA_Draw ''map2''
         [(''DemandOID'', [Scalar (VInt 1)]), (''Weight'', [Scalar (VInt 3)]),
          (''SHAPE'', [Shape ''patients 1''])] allocated_demand_symbol,
       LA_Draw ''map2''
         [(''DemandOID'', [Scalar (VInt 2)]), (''Weight'', [Scalar (VInt 8)]),
          (''SHAPE'', [Shape ''patients 2''])] unallocated_demand_symbol,
       LA_Draw ''map2''
         [(''Name'', [Scalar (VStr ''Visalia'')]), (''FacilityType'', [Scalar (VInt 3)]),
          (''Weight'', [Scalar (VInt 1)]), (''DemandCount'', [Scalar (VInt 1)]),
          (''DemandWeight'', [Scalar (VInt 3)]), (''SHAPE'', [Shape ''Visalia centroid''])]
         selected_facilities_symbol,
       LA_Zoom ''map2'' 7], Inr ())"
proof -
  have d: "map_of (output_demand_points sample_la_result) ''DemandOID'' = Some [Scalar (VInt 1), Scalar (VInt 2)]"
    by (simp add: sample_la_result_def)
  have l: "map_of (output_allocation_lines sample_la_result) ''DemandOID'' = Some [Scalar (VInt 1)]"
    by (simp add: sample_la_result_def)
  have f: "\<forall>c\<in>set chosen_columns. map_of (output_facilities sample_la_result) c \<noteq> None"
    by (simp add: sample_la_result_def chosen_columns_def)
  have a: "rows_at (output_demand_points sample_la_result) (allocated_rows sample_la_result) =
     [(''DemandOID'', [Scalar (VInt 1)]), (''Weight'', [Scalar (VInt 3)]),
          (''SHAPE'', [Shape ''patients 1''])]"
    by (simp add: rows_at_def sample_la_result_def allocated_rows_def positions_def column_def nths_Cons upt_rec)
  have u: "rows_at (output_demand_points sample_la_result) (unallocated_rows sample_la_result) =
      [(''DemandOID'', [Scalar (VInt 2)]), (''Weight'', [Scalar (VInt 8)]),
          (''SHAPE'', [Shape ''patients 2''])]"
    by (simp add: rows_at_def sample_la_result_def unallocated_rows_def positions_def column_def nths_Cons upt_rec)
  have c: "rows_at (facility_table sample_la_result) (chosen_rows sample_la_result) =
     [(''Name'', [Scalar (VStr ''Visalia'')]), (''FacilityType'', [Scalar (VInt 3)]),
          (''Weight'', [Scalar (VInt 1)]), (''DemandCount'', [Scalar (VInt 1)]),
          (''DemandWeight'', [Scalar (VInt 3)]), (''SHAPE'', [Shape ''Visalia centroid''])]"
    by (simp add: rows_at_def sample_la_result_def chosen_rows_def facility_table_def chosen_columns_def positions_def column_def nths_Cons upt_rec)
  from visualize_partitions_demand[OF d l f, of "''map2''" 7 "[]"]
  have "visualize_locate_allocate_results ''map2'' sample_la_result 7 [] =
     ([LA_Draw ''map2'' (output_allocation_lines sample_la_result) allocation_line_symbol_4,
       LA_Draw ''map2'' (output_allocation_lines sample_la_result) allocation_line_symbol_2,
       LA_Draw ''map2'' (output_allocation_lines sample_la_result) allocation_line_symbol_1,
       LA_Draw ''map2'' (rows_at (output_demand_points sample_la_result) (allocated_rows sample_la_result))
         allocated_demand_symbol,
       LA_Draw ''map2'' (rows_at (output_demand_points sample_la_result) (unallocated_rows sample_la_result))
         unallocated_demand_symbol,
       LA_Draw ''map2'' (rows_at (facility_table sample_la_result) (chosen_rows sample_la_result))
         selected_facilities_symbol,
       LA_Zoom ''map2'' 7], Inr ())"
    by (simp only: append_Nil) 
  then show ?thesis by (simp only: a u c)
qed

section \<open>Runs of the service-area notebook\<close>

lemma appends_draw [simp]: "appends (draw_service_areas float_str fill fs)"
  by (induction fs arbitrary: fill) simp_all

lemma appends_sa_notebook [simp]: "appends (sa_notebook pyfloat float_str svc)"
  by (simp add: sa_notebook_def)

lemma filter_err_sound:
  "filter_err named_trucking_time modes = Inr sel \<Longrightarrow> list_all trucking_time sel"
  by (induction modes arbitrary: sel)
     (auto simp: named_trucking_time_def getitem_def bind_def trucking_time_def
           split: option.splits sum.splits if_splits)

lemma truck_mode_named: "truck_mode tm = Inr m \<Longrightarrow> trucking_time m"
  by (auto simp: truck_mode_def subscript_def bind_def list_index_def list_all_length
      split: option.splits sum.splits if_splits dest!: filter_err_sound)

lemma fire_station_fset_two: "fire_station_fset pyfloat = Inr fs \<Longrightarrow> length (features fs) = 2"
  by (auto simp: fire_station_fset_def bind_def split: sum.splits)

lemma draw_events_local:
  "ev \<in> set (events (draw_service_areas float_str fill fs)) \<Longrightarrow> \<exists>g s p. ev = SA_Draw g s p"
  by (induction fs arbitrary: fill) (auto simp: events_bind split: sum.splits)

lemma draw_no_solve: "SA_Solve u req \<notin> set (events (draw_service_areas float_str fill fs))"
  using draw_events_local by fastforce

text \<open>
  C3: every service-area solve request that the notebook issues has the break values
  5, 10 and 15, the travel direction \<open>esriNATravelDirectionFromFacility\<close>, a travel
  mode named Trucking Time, namely the one selected from the travel modes that the
  service returned for the layer, and as facilities the fire-station feature set with its
  two features.
\<close>

theorem sa_solve_request_literals:
  "\<forall>u req. SA_Solve u req \<in> set (events (sa_notebook pyfloat float_str svc)) \<longrightarrow>
      default_breaks req = [5, 10, 15] \<and>
      sa_travel_direction req = ''esriNATravelDirectionFromFacility'' \<and>
      trucking_time (travel_mode req) \<and>
      sa_GIS svc ''https://www.arcgis.com'' ''arcgis_python'' ''P@ssword123''
        = Inr \<lparr>serviceArea_url = u\<rparr> \<and>
      bind (sa_retrieve_travel_modes svc u) truck_mode = Inr (travel_mode req) \<and>
      fire_station_fset pyfloat = Inr (sa_facilities req) \<and>
      length (features (sa_facilities req)) = 2"
  by (simp add: sa_notebook_def events_bind outcome_bind bind_def draw_no_solve
        sa_request_of_def truck_mode_named fire_station_fset_two
      split: sum.splits)

lemma sample_sa_run:
  "events (sa_notebook literal_float integral_float_str sample_sa_service) =
     [SA_Connect ''https://www.arcgis.com'' ''arcgis_python'' ''P@ssword123'',
      SA_Map ''Tokyo'' 12,
      SA_Draw_facilities sample_fire_stations fire_truck_symbol,
      SA_Retrieve_travel_modes ''https://route.arcgis.com/ServiceArea'',
      SA_Solve ''https://route.arcgis.com/ServiceArea'' sample_sa_request,
      SA_Draw ''ring 1 (10-15)''
        [(''type'', SStr ''esriSFS''), (''style'', SStr ''esriSFSSolid''), (''color'', SColor [255, 0, 0, 90])]
        [(''title'', ''Service area''), (''content'', ''15 minutes'')],
      SA_Draw ''ring 1 (5-10)''
        [(''type'', SStr ''esriSFS''), (''style'', SStr ''esriSFSSolid''), (''color'', SColor [255, 255, 0, 90])]
        [(''title'', ''Service area''), (''content'', ''10 minutes'')],
      SA_Draw ''ring 1 (0-5)''
        [(''type'', SStr ''esriSFS''), (''style'', SStr ''esriSFSSolid''), (''color'', SColor [0, 128, 0, 90])]
        [(''title'', ''Service area''), (''content'', ''5 minutes'')]]"
  and sample_sa_outcome: "outcome (sa_notebook literal_float integral_float_str sample_sa_service) = Inr ()"
  by (simp_all add: sa_notebook_def events_bind outcome_bind bind_def sample_sa_service_def
      fire_station_fset_def point_feature_def fire_station_1_coord_def fire_station_2_coord_def
      list_index_def literal_float_def sample_travel_modes_def truck_mode_def subscript_def
      named_trucking_time_def getitem_def sa_request_of_def sample_sa_result_def
      poly_feat_list_def polygon_feature_def service_area_fset_def fill_symbol_def
      attribute_def colors_getitem_def colors_def py_str_def str_int_def
      sample_sa_request_def sample_fire_stations_def)

theorem sa_solve_request_literals_witness:
  "SA_Solve ''https://route.arcgis.com/ServiceArea'' sample_sa_request
     \<in> set (events (sa_notebook literal_float integral_float_str sample_sa_service)) \<and>
   default_breaks sample_sa_request = [5, 10, 15] \<and>
   sa_travel_direction sample_sa_request = ''esriNATravelDirectionFromFacility'' \<and>
   trucking_time (travel_mode sample_sa_request) \<and>
   fire_station_fset literal_float = Inr (sa_facilities sample_sa_request) \<and>
   length (features (sa_facilities sample_sa_request)) = 2"
proof -
  have m: "SA_Solve ''https://route.arcgis.com/ServiceArea'' sample_sa_request
             \<in> set (events (sa_notebook literal_float integral_float_str sample_sa_service))"
    by (simp add: sample_sa_run)
  with sa_solve_request_literals[of literal_float integral_float_str sample_sa_service]
  show ?thesis
    by blast
qed

lemma draw_filter_solve [simp]: "filter is_sa_solve (events (draw_service_areas float_str fill fs)) = []"
  using draw_events_local by (fastforce simp: filter_empty_conv)

lemma draw_takeWhile [simp]:
  "takeWhile (Not \<circ> is_sa_solve) (events (draw_service_areas float_str fill fs) @ xs)
     = events (draw_service_areas float_str fill fs) @ takeWhile (Not \<circ> is_sa_solve) xs"
  using draw_events_local by (intro takeWhile_append2) fastforce

lemma draw_outcome_in_colors:
  "outcome (draw_service_areas float_str fill fs :: (('f, 'g) sa_event, symbol) io) = Inr fill' \<Longrightarrow>
   list_all break_in_colors fs"
proof (induction fs arbitrary: fill)
  case Nil
  then show ?case by simp
next
  case (Cons f fs)
  show ?case
  proof (cases "attribute f ''ToBreak''")
    case (Inl e)
    with Cons.prems show ?thesis by (simp add: outcome_bind bind_def)
  next
    case tb: (Inr tb)
    show ?thesis
    proof (cases "colors_getitem float_str tb")
      case (Inl e)
      with tb Cons.prems show ?thesis by (simp add: outcome_bind bind_def)
    next
      case c: (Inr c)
      with tb Cons.prems
      have "outcome (draw_service_areas float_str (setitem fill ''color'' (SColor c)) fs
                       :: (('f, 'g) sa_event, symbol) io) = Inr fill'"
        by (simp add: outcome_bind bind_def)
      then have rest: "list_all break_in_colors fs" by (rule Cons.IH)
      from tb c have "break_in_colors f" by (rule found_in_colors)
      with rest show ?thesis by simp
    qed
  qed
qed

lemma draw_events_complete:
  assumes "outcome (draw_service_areas float_str fill fs :: (('f, 'g) sa_event, symbol) io) = Inr fill'"
  shows "events (draw_service_areas float_str fill fs :: (('f, 'g) sa_event, symbol) io)
           = map (drawn_area float_str fill) fs"
proof -
  from draw_all_in_colors[of fs float_str fill "[] :: ('f, 'g) sa_event list",
                          OF draw_outcome_in_colors[OF assms]]
  show ?thesis by (auto simp: events_def)
qed

subsection \<open>The order of the events\<close>

lemma reshape_split:
  "poly_feat_list result = Inr pfl \<Longrightarrow> service_area_fset result pfl = Inr safs \<Longrightarrow>
   reshape_service_area result = Inr safs"
  by (simp add: reshape_service_area_def bind_def)

lemma sa_at_most_one_solve:
  "length (filter is_sa_solve (events (sa_notebook pyfloat float_str svc))) \<le> 1"
  by (simp add: sa_notebook_def events_bind outcome_bind bind_def split: sum.splits)

lemma sa_complete_run:
  assumes "outcome (sa_notebook pyfloat float_str svc) = Inr ()"
  shows "\<exists>my_gis fset modes mode result sa_fset.
           sa_GIS svc ''https://www.arcgis.com'' ''arcgis_python'' ''P@ssword123'' = Inr my_gis \<and>
           fire_station_fset pyfloat = Inr fset \<and>
           sa_retrieve_travel_modes svc (serviceArea_url my_gis) = Inr modes \<and>
           truck_mode modes = Inr mode \<and>
           sa_solve_service_area svc (serviceArea_url my_gis) (sa_request_of fset mode) = Inr result \<and>
           reshape_service_area result = Inr sa_fset \<and>
           events (sa_notebook pyfloat float_str svc) =
             [SA_Connect ''https://www.arcgis.com'' ''arcgis_python'' ''P@ssword123'',
              SA_Map ''Tokyo'' 12,
              SA_Draw_facilities fset fire_truck_symbol,
              SA_Retrieve_travel_modes (serviceArea_url my_gis),
              SA_Solve (serviceArea_url my_gis) (sa_request_of fset mode)]
             @ map (drawn_area float_str fill_symbol) (features sa_fset)"
  using assms
  by (auto simp: sa_notebook_def events_bind outcome_bind bind_def reshape_split
                 draw_events_complete
           split: sum.splits)

lemma sa_before_solve:
  "\<forall>u req. SA_Solve u req \<in> set (events (sa_notebook pyfloat float_str svc)) \<longrightarrow>
      fire_station_fset pyfloat = Inr (sa_facilities req) \<and>
      takeWhile (Not \<circ> is_sa_solve) (events (sa_notebook pyfloat float_str svc)) =
        [SA_Connect ''https://www.arcgis.com'' ''arcgis_python'' ''P@ssword123'',
         SA_Map ''Tokyo'' 12,
         SA_Draw_facilities (sa_facilities req) fire_truck_symbol,
         SA_Retrieve_travel_modes u]"
  by (simp add: sa_notebook_def events_bind outcome_bind bind_def draw_no_solve
        sa_request_of_def split: sum.splits)

subsection \<open>Failing requests\<close>

lemma fail_stop_draw: "fail_stop (sa_failed svc) (draw_service_areas float_str fill fs)"
  by (induction fs arbitrary: fill) (simp_all add: fail_stop_bind fail_stop_emit)

lemma fail_stop_sa_notebook: "fail_stop (sa_failed svc) (sa_notebook pyfloat float_str svc)"
  by (simp add: sa_notebook_def fail_stop_bind fail_stop_emit fail_stop_call fail_stop_draw)

lemma sa_exactly_one:
  "outcome (sa_notebook pyfloat float_str svc) = Inr () \<Longrightarrow>
   length (filter is_sa_solve (events (sa_notebook pyfloat float_str svc))) = 1"
  by (auto simp: sa_notebook_def events_bind outcome_bind bind_def split: sum.splits)

lemma failing_sa_run:
  "outcome (sa_notebook literal_float integral_float_str failing_sa_service) = Inl (RemoteError ''network'')"
  "events (sa_notebook literal_float integral_float_str failing_sa_service) =
     [SA_Connect ''https://www.arcgis.com'' ''arcgis_python'' ''P@ssword123'',
      SA_Map ''Tokyo'' 12,
      SA_Draw_facilities sample_fire_stations fire_truck_symbol,
      SA_Retrieve_travel_modes ''https://route.arcgis.com/ServiceArea'',
      SA_Solve ''https://route.arcgis.com/ServiceArea'' sample_sa_request]"
  by (simp_all add: sa_notebook_def events_bind outcome_bind bind_def sample_sa_service_def
      failing_sa_service_def
      fire_station_fset_def point_feature_def fire_station_1_coord_def fire_station_2_coord_def
      list_index_def literal_float_def sample_travel_modes_def truck_mode_def subscript_def
      named_trucking_time_def getitem_def sa_request_of_def 
      sample_sa_request_def sample_fire_stations_def)

subsection \<open>The plan of the run\<close>

lemma draw_kinds [simp]:
  "map sa_kind (events (draw_service_areas float_str fill fs :: (('f, 'g) sa_event, symbol) io))
     = replicate (length (events (draw_service_areas float_str fill fs
                                    :: (('f, 'g) sa_event, symbol) io))) Sa_draw"
proof -
  let ?evs = "events (draw_service_areas float_str fill fs :: (('f, 'g) sa_event, symbol) io)"
  have "\<forall>k \<in> set (map sa_kind ?evs). k = Sa_draw"
    using draw_events_local by fastforce
  from replicate_length_same[OF this, symmetric] show ?thesis by simp
qed

lemma draw_all_draws [simp]:
  "filter (\<lambda>ev. sa_kind ev = Sa_draw) (events (draw_service_areas float_str fill fs))
     = events (draw_service_areas float_str fill fs)"
  using draw_events_local by (intro filter_True) fastforce

lemma sa_plan_prefix:
  "prefix (map sa_kind (events (sa_notebook pyfloat float_str svc)))
     (sa_plan (length (filter (\<lambda>ev. sa_kind ev = Sa_draw) (events (sa_notebook pyfloat float_str svc)))))"
  by (simp add: sa_notebook_def events_bind outcome_bind bind_def sa_plan_def
      split: sum.splits)

lemma sa_plan_complete:
  "outcome (sa_notebook pyfloat float_str svc) = Inr () \<Longrightarrow>
   map sa_kind (events (sa_notebook pyfloat float_str svc))
     = sa_plan (length (filter (\<lambda>ev. sa_kind ev = Sa_draw) (events (sa_notebook pyfloat float_str svc))))"
  by (auto simp: sa_notebook_def events_bind outcome_bind bind_def sa_plan_def
      split: sum.splits)

section \<open>Runs of the location-allocation notebook\<close>

lemma appends_visualize [simp]: "appends (visualize_locate_allocate_results m result z)"
  by (simp add: visualize_locate_allocate_results_def)

lemma appends_la_setup [simp]: "appends (la_setup svc)"
  by (simp add: la_setup_def)

lemma appends_la_inputs [simp]: "appends (la_inputs svc vars)"
  by (simp add: la_inputs_def)

lemma appends_la_analysis [simp]: "appends (la_analysis svc req label m z zl)"
  by (simp add: la_analysis_def)

lemma appends_la_notebook [simp]: "appends (la_notebook svc)"
  by (simp add: la_notebook_def)

subsection \<open>Failing requests and the flag of a solve result\<close>

lemma fail_stop_visualize:
  "fail_stop (la_failed svc) (visualize_locate_allocate_results m result z)"
  by (simp add: visualize_locate_allocate_results_def fail_stop_bind fail_stop_emit)

lemma fail_stop_la_setup: "fail_stop (la_failed svc) (la_setup svc)"
  by (simp add: la_setup_def fail_stop_bind fail_stop_emit fail_stop_call fail_stop_foreach_emit)

lemma fail_stop_la_inputs: "fail_stop (la_failed svc) (la_inputs svc vars)"
  by (simp add: la_inputs_def fail_stop_bind fail_stop_emit fail_stop_call)

lemma fail_stop_la_analysis: "fail_stop (la_failed svc) (la_analysis svc req label m z zl)"
  by (simp add: la_analysis_def fail_stop_bind fail_stop_emit fail_stop_call fail_stop_visualize)

lemma fail_stop_la_notebook: "fail_stop (la_failed svc) (la_notebook svc)"
  by (simp add: la_notebook_def fail_stop_bind fail_stop_la_setup fail_stop_la_inputs
      fail_stop_la_analysis)

lemma visualize_flag [simp]:
  "visualize_locate_allocate_results m (result\<lparr>solve_succeeded := b\<rparr>) z
     = visualize_locate_allocate_results m result z"
  by (simp add: visualize_locate_allocate_results_def demand_allocated_df_def
      demand_not_allocated_df_def facilities_chosen_df_def facilities_df_def)

lemma la_setup_flag [simp]: "la_setup (with_flag flag svc) = la_setup svc"
  by (simp add: la_setup_def with_flag_def)

lemma la_inputs_flag [simp]: "la_inputs (with_flag flag svc) vars = la_inputs svc vars"
  by (simp add: la_inputs_def with_flag_def)

lemma la_analysis_flag:
  "outcome (la_analysis (with_flag flag svc) req label m z zl)
     = outcome (la_analysis svc req label m z zl) \<and>
   filter (Not \<circ> is_la_print) (events (la_analysis (with_flag flag svc) req label m z zl))
     = filter (Not \<circ> is_la_print) (events (la_analysis svc req label m z zl))"
  by (simp add: la_analysis_def events_bind outcome_bind bind_def with_flag_def split: sum.splits)

lemma la_notebook_flag:
  "outcome (la_notebook (with_flag flag svc)) = outcome (la_notebook svc) \<and>
   filter (Not \<circ> is_la_print) (events (la_notebook (with_flag flag svc)))
     = filter (Not \<circ> is_la_print) (events (la_notebook svc))"
  by (simp add: la_notebook_def events_bind outcome_bind bind_def la_analysis_flag
      split: sum.splits)

subsection \<open>The events of the cells\<close>

lemma visualize_events:
  "ev \<in> set (events (visualize_locate_allocate_results m result z)) \<Longrightarrow>
   (\<exists>shape s. ev = LA_Draw m shape s) \<or> ev = LA_Zoom m z"
  by (auto simp: visualize_locate_allocate_results_def events_bind split: sum.splits)

lemma visualize_no_solve [simp]:
  "filter is_la_solve (events (visualize_locate_allocate_results m result z)) = []"
  using visualize_events by (fastforce simp: filter_empty_conv)

lemma visualize_no_query [simp]:
  "filter is_la_query (events (visualize_locate_allocate_results m result z)) = []"
  using visualize_events by (fastforce simp: filter_empty_conv)

lemma la_setup_quiet [simp]:
  "filter is_la_solve (events (la_setup svc)) = []"
  "filter is_la_query (events (la_setup svc)) = []"
  "filter is_la_draw (events (la_setup svc)) = []"
  by (simp_all add: la_setup_def events_bind outcome_bind bind_def filter_map comp_def
      split: sum.splits)

lemma la_setup_first:
  "hd (events (la_setup svc)) =
     LA_Connect ''https://python.playground.esri.com/portal'' ''arcgis_python'' ''amazing_arcgis_123''"
  by (simp add: la_setup_def events_bind outcome_bind bind_def split: sum.splits)

lemma la_setup_nonempty [simp]: "events (la_setup svc) \<noteq> []"
  by (simp add: la_setup_def events_bind outcome_bind bind_def split: sum.splits)

lemma la_inputs_quiet [simp]:
  "filter is_la_solve (events (la_inputs svc vars)) = []"
  "filter is_la_draw (events (la_inputs svc vars)) = []"
  by (simp_all add: la_inputs_def events_bind outcome_bind bind_def split: sum.splits)

lemma la_inputs_complete:
  assumes "outcome (la_inputs svc vars) = Inr inputs"
  shows "\<exists>cc pl lc lp.
           city_candidates vars = Some cc \<and> list_index (layers cc) 0 = Inr lc \<and>
           patient_locations vars = Some pl \<and> list_index (layers pl) 0 = Inr lp \<and>
           la_query svc lc = Inr (fst inputs) \<and>
           bind (la_query svc lp) patient_locations_weighted = Inr (snd inputs) \<and>
           events (la_inputs svc vars) = [LA_Query lc, LA_Query lp]"
  using assms
  by (auto simp: la_inputs_def events_bind outcome_bind bind_def variable_def
           split: sum.splits option.splits)

lemma la_analysis_solves [simp]:
  "filter is_la_solve (events (la_analysis svc req label m z zl)) = [LA_Solve req]"
  by (simp add: la_analysis_def events_bind outcome_bind bind_def split: sum.splits)

lemma la_notebook_solves:
  "filter is_la_solve (events (la_notebook svc)) =
     (case outcome (la_setup svc) of
        Inl e \<Rightarrow> []
      | Inr vars \<Rightarrow>
         (case outcome (la_inputs svc vars) of
            Inl e \<Rightarrow> []
          | Inr inputs \<Rightarrow>
              LA_Solve (request1 (snd inputs) (fst inputs)) #
              (case outcome (la_analysis svc (request1 (snd inputs) (fst inputs))
                       ''Analysis succeeded? '' ''map2'' None 7) of
                 Inl e \<Rightarrow> []
               | Inr u \<Rightarrow> [LA_Solve (request2 (snd inputs) (fst inputs))])))"
  by (simp add: la_notebook_def events_bind outcome_bind bind_def split: sum.splits)

lemma project_Inr:
  "project df cs = Inr p \<Longrightarrow> p = map (\<lambda>c. (c, column df c)) cs"
  unfolding project_def
  by (induction cs arbitrary: p)
     (auto simp: getitem_def bind_def column_def split: option.splits sum.splits)

lemma demand_allocated_Inr:
  "demand_allocated_df result = Inr a \<Longrightarrow>
   a = rows_at (output_demand_points result) (allocated_rows result)"
  by (auto simp: demand_allocated_df_def getitem_def bind_def isin_def select_rows_map
      allocated_rows_def column_def split: option.splits)

lemma demand_not_allocated_Inr:
  "demand_not_allocated_df result = Inr u \<Longrightarrow>
   u = rows_at (output_demand_points result) (unallocated_rows result)"
  by (auto simp: demand_not_allocated_df_def getitem_def bind_def isin_def select_rows_invert_map
      unallocated_rows_def column_def split: option.splits)

lemma facilities_chosen_Inr:
  assumes "facilities_chosen_df result = Inr c"
  shows "c = rows_at (facility_table result) (chosen_rows result)"
proof -
  from assms obtain fdf where fdf: "facilities_df result = Inr fdf"
    by (cases "facilities_df result") (auto simp: facilities_chosen_df_def bind_def)
  then have t: "fdf = facility_table result"
    using project_Inr[of "output_facilities result" chosen_columns fdf]
    by (simp add: facilities_df_def facility_table_def chosen_columns_def)
  have ft: "getitem (facility_table result) ''FacilityType''
              = Inr (column (output_facilities result) ''FacilityType'')"
    by (simp add: facility_table_def chosen_columns_def getitem_def)
  from assms fdf t ft show ?thesis
    by (simp add: facilities_chosen_df_def bind_def select_rows_map chosen_rows_def)
qed

lemma visualize_complete:
  assumes "outcome (visualize_locate_allocate_results m result z) = Inr ()"
  shows "events (visualize_locate_allocate_results m result z) = visualized m result z"
  using assms
  by (auto simp: visualize_locate_allocate_results_def events_bind outcome_bind bind_def
        visualized_def
      split: sum.splits
      dest!: demand_allocated_Inr demand_not_allocated_Inr facilities_chosen_Inr)

lemma la_analysis_complete:
  assumes "outcome (la_analysis svc req label m z zl) = Inr ()"
  shows "\<exists>result. la_solve_location_allocation svc req = Inr result \<and>
           events (la_analysis svc req label m z zl) = la_shown req result label m z zl"
  using assms
  by (auto simp: la_analysis_def events_bind outcome_bind bind_def la_shown_def
        visualize_complete py_bool_def
      split: sum.splits)

lemma la_analysis_first:
  "events (la_analysis svc req label m z zl) = LA_Solve req # tl (events (la_analysis svc req label m z zl))"
  by (simp add: la_analysis_def events_bind outcome_bind bind_def split: sum.splits)

lemma takeWhile_quiet:
  "filter P xs = [] \<Longrightarrow> takeWhile (Not \<circ> P) (xs @ ys) = xs @ takeWhile (Not \<circ> P) ys"
  by (intro takeWhile_append2) (auto simp: filter_empty_conv)

subsection \<open>The order of the events\<close>

lemma la_notebook_events:
  "events (la_notebook svc) =
     events (la_setup svc) @
     (case outcome (la_setup svc) of
        Inl e \<Rightarrow> []
      | Inr vars \<Rightarrow>
          events (la_inputs svc vars) @
          (case outcome (la_inputs svc vars) of
             Inl e \<Rightarrow> []
           | Inr inputs \<Rightarrow>
               events (la_analysis svc (request1 (snd inputs) (fst inputs))
                         ''Analysis succeeded? '' ''map2'' None 7) @
               (case outcome (la_analysis svc (request1 (snd inputs) (fst inputs))
                         ''Analysis succeeded? '' ''map2'' None 7) of
                  Inl e \<Rightarrow> []
                | Inr u \<Rightarrow> events (la_analysis svc (request2 (snd inputs) (fst inputs))
                              ''Solve succeeded? '' ''map3'' (Some 7) 6))))"
  by (simp add: la_notebook_def events_bind outcome_bind bind_def split: sum.splits)

lemma la_notebook_outcome:
  "outcome (la_notebook svc) =
     bind (outcome (la_setup svc)) (\<lambda>vars.
     bind (outcome (la_inputs svc vars)) (\<lambda>inputs.
     bind (outcome (la_analysis svc (request1 (snd inputs) (fst inputs))
                         ''Analysis succeeded? '' ''map2'' None 7)) (\<lambda>_.
     outcome (la_analysis svc (request2 (snd inputs) (fst inputs))
                              ''Solve succeeded? '' ''map3'' (Some 7) 6))))"
  by (simp add: la_notebook_def outcome_bind)

lemma la_complete_run:
  assumes "outcome (la_notebook svc) = Inr ()"
  shows "\<exists>lc lp cc w result1 result2.
           la_query svc lc = Inr cc \<and>
           bind (la_query svc lp) patient_locations_weighted = Inr w \<and>
           la_solve_location_allocation svc (request1 w cc) = Inr result1 \<and>
           la_solve_location_allocation svc (request2 w cc) = Inr result2 \<and>
           events (la_notebook svc) =
             events (la_setup svc) @ [LA_Query lc, LA_Query lp] @
             la_shown (request1 w cc) result1 ''Analysis succeeded? '' ''map2'' None 7 @
             la_shown (request2 w cc) result2 ''Solve succeeded? '' ''map3'' (Some 7) 6"
proof -
  from assms obtain vars where vars: "outcome (la_setup svc) = Inr vars"
    by (cases "outcome (la_setup svc)") (auto simp: la_notebook_outcome bind_def)
  from assms vars obtain inputs where inputs: "outcome (la_inputs svc vars) = Inr inputs"
    by (cases "outcome (la_inputs svc vars)") (auto simp: la_notebook_outcome bind_def)
  from assms vars inputs have a1: "outcome (la_analysis svc (request1 (snd inputs) (fst inputs))
                         ''Analysis succeeded? '' ''map2'' None 7) = Inr ()"
    by (cases "outcome (la_analysis svc (request1 (snd inputs) (fst inputs))
                         ''Analysis succeeded? '' ''map2'' None 7)")
       (auto simp: la_notebook_outcome bind_def)
  from assms vars inputs a1 have a2: "outcome (la_analysis svc (request2 (snd inputs) (fst inputs))
                              ''Solve succeeded? '' ''map3'' (Some 7) 6) = Inr ()"
    by (simp add: la_notebook_outcome bind_def)
  from la_inputs_complete[OF inputs] obtain lc lp where
    q: "la_query svc lc = Inr (fst inputs)"
       "bind (la_query svc lp) patient_locations_weighted = Inr (snd inputs)"
       "events (la_inputs svc vars) = [LA_Query lc, LA_Query lp]"
    by blast
  from la_analysis_complete[OF a1] obtain result1 where
    r1: "la_solve_location_allocation svc (request1 (snd inputs) (fst inputs)) = Inr result1"
        "events (la_analysis svc (request1 (snd inputs) (fst inputs))
                         ''Analysis succeeded? '' ''map2'' None 7)
           = la_shown (request1 (snd inputs) (fst inputs)) result1 ''Analysis succeeded? '' ''map2'' None 7"
    by blast
  from la_analysis_complete[OF a2] obtain result2 where
    r2: "la_solve_location_allocation svc (request2 (snd inputs) (fst inputs)) = Inr result2"
        "events (la_analysis svc (request2 (snd inputs) (fst inputs))
                              ''Solve succeeded? '' ''map3'' (Some 7) 6)
           = la_shown (request2 (snd inputs) (fst inputs)) result2 ''Solve succeeded? '' ''map3'' (Some 7) 6"
    by blast
  have "events (la_notebook svc) =
             events (la_setup svc) @ [LA_Query lc, LA_Query lp] @
             la_shown (request1 (snd inputs) (fst inputs)) result1 ''Analysis succeeded? '' ''map2'' None 7 @
             la_shown (request2 (snd inputs) (fst inputs)) result2 ''Solve succeeded? '' ''map3'' (Some 7) 6"
    by (simp add: la_notebook_events vars inputs a1 q(3) r1(2) r2(2))
  with q(1,2) r1(1) r2(1) show ?thesis by blast
qed

lemma la_before_first_solve:
  assumes "LA_Solve req \<in> set (events (la_notebook svc))"
  shows "\<exists>lc lp.
           la_query svc lc = Inr (la_facilities req) \<and>
           bind (la_query svc lp) patient_locations_weighted = Inr (demand_points req) \<and>
           takeWhile (Not \<circ> is_la_solve) (events (la_notebook svc)) =
             events (la_setup svc) @ [LA_Query lc, LA_Query lp]"
proof -
  from assms have m: "LA_Solve req \<in> set (filter is_la_solve (events (la_notebook svc)))"
    by simp
  then obtain vars where vars: "outcome (la_setup svc) = Inr vars"
    by (cases "outcome (la_setup svc)") (auto simp: la_notebook_solves)
  from m vars obtain inputs where inputs: "outcome (la_inputs svc vars) = Inr inputs"
    by (cases "outcome (la_inputs svc vars)") (auto simp: la_notebook_solves)
  from m vars inputs have r: "la_facilities req = fst inputs \<and> demand_points req = snd inputs"
    by (auto simp: la_notebook_solves request1_def request2_def split: sum.splits)
  from la_inputs_complete[OF inputs] obtain lc lp where
    q: "la_query svc lc = Inr (fst inputs)"
       "bind (la_query svc lp) patient_locations_weighted = Inr (snd inputs)"
       "events (la_inputs svc vars) = [LA_Query lc, LA_Query lp]"
    by blast
  have "takeWhile (Not \<circ> is_la_solve) (events (la_notebook svc)) =
             events (la_setup svc) @ [LA_Query lc, LA_Query lp]"
    apply (simp add: la_notebook_events vars inputs q(3) takeWhile_quiet)
    apply (subst la_analysis_first)
    apply simp
    done
  with q(1,2) r show ?thesis by auto
qed

lemma la_at_most_two_solves: "length (filter is_la_solve (events (la_notebook svc))) \<le> 2"
  by (simp add: la_notebook_solves split: sum.splits)

lemma la_exactly_two:
  "outcome (la_notebook svc) = Inr () \<Longrightarrow>
   length (filter is_la_solve (events (la_notebook svc))) = 2"
  by (auto simp: la_notebook_solves la_notebook_outcome bind_def split: sum.splits)

subsection \<open>The sample runs\<close>

lemma sample_assign: "assign_items sample_items = sample_vars"
  by (simp add: assign_items_def sample_items_def assign_item_def sample_vars_def)

lemma sample_la_setup:
  "outcome (la_setup sample_la_service) = Inr sample_vars"
  "events (la_setup sample_la_service) =
     [LA_Connect ''https://python.playground.esri.com/portal'' ''arcgis_python'' ''amazing_arcgis_123'',
      LA_Search ''tags: ALS'' ''Feature Layer''] @
     map LA_Display_item sample_items @ map (\<lambda>item. LA_Print (title item)) sample_items @
     [LA_Map ''State of California, USA'' None,
      LA_Basemap ''map1'' ''dark-gray'',
      LA_Display_map ''map1'',
      LA_Add_layer ''map1'' \<lparr>title = ''ALS_Clinic_90minDriveTime_CA'', layers = [''drivetimes/0'']\<rparr>,
      LA_Add_layer ''map1'' \<lparr>title = ''ALS_Clinics_CA'', layers = [''clinics/0'']\<rparr>,
      LA_Add_layer ''map1'' \<lparr>title = ''ALS_Patients_CA'', layers = [''patients/0'']\<rparr>,
      LA_Add_layer ''map1'' \<lparr>title = ''ALS_Clinic_City_Candidates_CA'', layers = [''candidates/0'']\<rparr>]"
  by (simp_all add: la_setup_def events_bind outcome_bind bind_def sample_la_service_def
      sample_assign variable_def sample_vars_def)

lemma sample_la_inputs:
  "outcome (la_inputs sample_la_service sample_vars) = Inr (sample_candidates, sample_weighted)"
  "events (la_inputs sample_la_service sample_vars) = [LA_Query ''candidates/0'', LA_Query ''patients/0'']"
  by (simp_all add: la_inputs_def events_bind outcome_bind bind_def sample_la_service_def
      sample_vars_def variable_def list_index_def patient_locations_weighted_def
      sample_patients_def getitem_def drop_column_def sample_weighted_def)

lemma sample_la_analysis:
  "outcome (la_analysis sample_la_service req label m z zl) = Inr ()"
  by (simp add: la_analysis_def outcome_bind bind_def sample_la_service_def
      visualize_locate_allocate_results_def sample_la_result_def project_def getitem_def
      demand_allocated_df_def demand_not_allocated_df_def facilities_chosen_df_def
      facilities_df_def)

lemma sample_la_outcome: "outcome (la_notebook sample_la_service) = Inr ()"
  by (simp add: la_notebook_outcome sample_la_setup sample_la_inputs sample_la_analysis bind_def)

lemma failing_la_run:
  "outcome (la_notebook failing_la_service) = Inl (RemoteError ''token expired'')"
  "events (la_notebook failing_la_service) =
     events (la_setup sample_la_service) @
     [LA_Query ''candidates/0'', LA_Query ''patients/0'',
      LA_Solve (request1 sample_weighted sample_candidates)]"
proof -
  have s: "la_setup failing_la_service = la_setup sample_la_service"
    by (simp add: la_setup_def failing_la_service_def)
  have i: "la_inputs failing_la_service = la_inputs sample_la_service"
    by (simp add: la_inputs_def failing_la_service_def fun_eq_iff)
  have a: "outcome (la_analysis failing_la_service req label m z zl) = Inl (RemoteError ''token expired'')"
     "events (la_analysis failing_la_service req label m z zl) = [LA_Solve req]" for req label m z zl
    by (simp_all add: la_analysis_def events_bind outcome_bind bind_def failing_la_service_def)
  show "outcome (la_notebook failing_la_service) = Inl (RemoteError ''token expired'')"
    by (simp add: la_notebook_outcome s i sample_la_setup sample_la_inputs a bind_def)
  show "events (la_notebook failing_la_service) =
     events (la_setup sample_la_service) @
     [LA_Query ''candidates/0'', LA_Query ''patients/0'',
      LA_Solve (request1 sample_weighted sample_candidates)]"
    by (simp add: la_notebook_events s i sample_la_setup(1) sample_la_inputs a)
qed

lemma sample_la_solves:
  "filter is_la_solve (events (la_notebook sample_la_service)) =
     [LA_Solve (request1 sample_weighted sample_candidates),
      LA_Solve (request2 sample_weighted sample_candidates)]"
  by (simp add: la_notebook_solves sample_la_setup sample_la_inputs sample_la_analysis)

text \<open>
  C2: every location-allocation solve request that the notebook issues has the travel
  direction \<open>Demand to Facility\<close>, the measurement units \<open>Minutes\<close> and the default
  measurement cutoff 90, and is either of problem type \<open>Maximize Coverage\<close> with
  \<open>number_of_facilities_to_find\<close> \<^verbatim>\<open>'1'\<close> and no target market share, or of problem type
  \<open>Target Market Share\<close> with the target market share 70 and no number of facilities. The
  requests are issued in this order, the second only after the first, and a run that
  reaches its end has issued exactly these two.
\<close>

theorem la_solve_request_literals:
  "(\<forall>req. LA_Solve req \<in> set (events (la_notebook svc)) \<longrightarrow>
      la_travel_direction req = ''Demand to Facility'' \<and>
      measurement_units req = ''Minutes'' \<and>
      default_measurement_cutoff req = 90 \<and>
      (problem_type req = ''Maximize Coverage'' \<and>
         number_of_facilities_to_find req = Some ''1'' \<and> target_market_share req = None \<or>
       problem_type req = ''Target Market Share'' \<and>
         target_market_share req = Some 70 \<and> number_of_facilities_to_find req = None)) \<and>
   map solve_problem_type (filter is_la_solve (events (la_notebook svc)))
     \<in> {[], [''Maximize Coverage''], [''Maximize Coverage'', ''Target Market Share'']} \<and>
   (outcome (la_notebook svc) = Inr () \<longrightarrow>
      map solve_problem_type (filter is_la_solve (events (la_notebook svc)))
        = [''Maximize Coverage'', ''Target Market Share''])"
proof (intro conjI allI impI)
  fix req
  assume "LA_Solve req \<in> set (events (la_notebook svc))"
  then have m: "LA_Solve req \<in> set (filter is_la_solve (events (la_notebook svc)))"
    by simp
  then have "(\<exists>w cc. req = request1 w cc) \<or> (\<exists>w cc. req = request2 w cc)"
    by (auto simp: la_notebook_solves split: sum.splits)
  then show "la_travel_direction req = ''Demand to Facility''"
    and "measurement_units req = ''Minutes''"
    and "default_measurement_cutoff req = 90"
    and "problem_type req = ''Maximize Coverage'' \<and>
         number_of_facilities_to_find req = Some ''1'' \<and> target_market_share req = None \<or>
       problem_type req = ''Target Market Share'' \<and>
         target_market_share req = Some 70 \<and> number_of_facilities_to_find req = None"
    by (auto simp: request1_def request2_def)
next
  show "map solve_problem_type (filter is_la_solve (events (la_notebook svc)))
     \<in> {[], [''Maximize Coverage''], [''Maximize Coverage'', ''Target Market Share'']}"
    by (simp add: la_notebook_solves solve_problem_type_def request1_def request2_def
        split: sum.splits)
next
  assume "outcome (la_notebook svc) = Inr ()"
  then show "map solve_problem_type (filter is_la_solve (events (la_notebook svc)))
        = [''Maximize Coverage'', ''Target Market Share'']"
    by (auto simp: la_notebook_solves la_notebook_outcome bind_def solve_problem_type_def
        request1_def request2_def split: sum.splits)
qed

theorem la_solve_request_literals_witness:
  "LA_Solve (request1 sample_weighted sample_candidates)
     \<in> set (events (la_notebook sample_la_service)) \<and>
   LA_Solve (request2 sample_weighted sample_candidates)
     \<in> set (events (la_notebook sample_la_service)) \<and>
   problem_type (request1 sample_weighted sample_candidates) = ''Maximize Coverage'' \<and>
   number_of_facilities_to_find (request1 sample_weighted sample_candidates) = Some ''1'' \<and>
   problem_type (request2 sample_weighted sample_candidates) = ''Target Market Share'' \<and>
   target_market_share (request2 sample_weighted sample_candidates) = Some 70 \<and>
   default_measurement_cutoff (request2 sample_weighted sample_candidates) = 90 \<and>
   outcome (la_notebook sample_la_service) = Inr () \<and>
   map solve_problem_type (filter is_la_solve (events (la_notebook sample_la_service)))
     = [''Maximize Coverage'', ''Target Market Share'']"
proof -
  have "set (filter is_la_solve (events (la_notebook sample_la_service))) =
          {LA_Solve (request1 sample_weighted sample_candidates),
           LA_Solve (request2 sample_weighted sample_candidates)}"
    by (simp add: sample_la_solves)
  then have m: "LA_Solve (request1 sample_weighted sample_candidates)
                  \<in> set (events (la_notebook sample_la_service))"
    "LA_Solve (request2 sample_weighted sample_candidates)
                  \<in> set (events (la_notebook sample_la_service))"
    by auto
  from la_solve_request_literals[of sample_la_service] m sample_la_outcome show ?thesis
    by (simp add: request1_def request2_def)
qed

subsection \<open>The plan of the run\<close>

lemma visualize_plan:
  "prefix (map la_kind (events (visualize_locate_allocate_results m result z)))
     [La_draw m allocation_line_symbol_4, La_draw m allocation_line_symbol_2,
      La_draw m allocation_line_symbol_1, La_draw m allocated_demand_symbol,
      La_draw m unallocated_demand_symbol, La_draw m selected_facilities_symbol,
      La_zoom m z]"
  "outcome (visualize_locate_allocate_results m result z) = Inr () \<Longrightarrow>
   map la_kind (events (visualize_locate_allocate_results m result z)) =
     [La_draw m allocation_line_symbol_4, La_draw m allocation_line_symbol_2,
      La_draw m allocation_line_symbol_1, La_draw m allocated_demand_symbol,
      La_draw m unallocated_demand_symbol, La_draw m selected_facilities_symbol,
      La_zoom m z]"
  by (auto simp: visualize_locate_allocate_results_def events_bind outcome_bind bind_def
      split: sum.splits)

lemma la_analysis_plan_followed:
  "prefix (map la_kind (events (la_analysis svc req label m z zl)))
     (la_analysis_plan (problem_type req) m zl)"
  "outcome (la_analysis svc req label m z zl) = Inr () \<Longrightarrow>
   map la_kind (events (la_analysis svc req label m z zl)) = la_analysis_plan (problem_type req) m zl"
  using visualize_plan[of m _ zl]
  by (auto simp: la_analysis_def events_bind outcome_bind bind_def la_analysis_plan_def
      split: sum.splits)

lemma la_inputs_plan_followed:
  "prefix (map la_kind (events (la_inputs svc vars))) [La_query, La_query]"
  "outcome (la_inputs svc vars) = Inr inputs \<Longrightarrow>
   map la_kind (events (la_inputs svc vars)) = [La_query, La_query]"
  by (auto simp: la_inputs_def events_bind outcome_bind bind_def split: sum.splits)

lemma la_setup_plan_followed:
  "prefix (map la_kind (events (la_setup svc)))
     (la_setup_plan (length (filter (\<lambda>ev. la_kind ev = La_display_item) (events (la_setup svc)))))"
  "outcome (la_setup svc) = Inr vars \<Longrightarrow>
   map la_kind (events (la_setup svc))
     = la_setup_plan (length (filter (\<lambda>ev. la_kind ev = La_display_item) (events (la_setup svc))))"
  by (auto simp: la_setup_def events_bind outcome_bind bind_def la_setup_plan_def
      filter_map comp_def map_replicate_const
      split: sum.splits)

lemma la_plan_followed:
  "\<exists>n. prefix (map la_kind (events (la_notebook svc))) (la_plan n) \<and>
       (outcome (la_notebook svc) = Inr () \<longrightarrow> map la_kind (events (la_notebook svc)) = la_plan n)"
proof -
  define n where "n = length (filter (\<lambda>ev. la_kind ev = La_display_item) (events (la_setup svc)))"
  note s = la_setup_plan_followed[of svc, folded n_def]
  have "prefix (map la_kind (events (la_notebook svc))) (la_plan n) \<and>
       (outcome (la_notebook svc) = Inr () \<longrightarrow> map la_kind (events (la_notebook svc)) = la_plan n)"
  proof (cases "outcome (la_setup svc)")
    case (Inl e)
    with s(1) show ?thesis
      by (simp add: la_notebook_events la_notebook_outcome bind_def la_plan_def)
  next
    case vars: (Inr vars)
    note sv = s(2)[OF vars]
    show ?thesis
    proof (cases "outcome (la_inputs svc vars)")
      case (Inl e)
      have "prefix (map la_kind (events (la_inputs svc vars))) ([La_query, La_query] @ rest)" for rest
        using la_inputs_plan_followed(1)[of svc vars] by (rule prefix_prefix)
      with Inl vars sv show ?thesis
        by (simp add: la_notebook_events la_notebook_outcome bind_def la_plan_def)
    next
      case inputs: (Inr inputs)
      note iv = la_inputs_plan_followed(2)[OF inputs]
      let ?a1 = "la_analysis svc (request1 (snd inputs) (fst inputs))
                   ''Analysis succeeded? '' ''map2'' None 7"
      let ?a2 = "la_analysis svc (request2 (snd inputs) (fst inputs))
                   ''Solve succeeded? '' ''map3'' (Some 7) 6"
      have p1: "prefix (map la_kind (events ?a1)) (la_analysis_plan ''Maximize Coverage'' ''map2'' 7)"
        using la_analysis_plan_followed(1)[of svc "request1 (snd inputs) (fst inputs)"
                 "''Analysis succeeded? ''" "''map2''" None 7]
        by (simp add: request1_def)
      have p2: "prefix (map la_kind (events ?a2)) (la_analysis_plan ''Target Market Share'' ''map3'' 6)"
        using la_analysis_plan_followed(1)[of svc "request2 (snd inputs) (fst inputs)"
                 "''Solve succeeded? ''" "''map3''" "Some 7" 6]
        by (simp add: request2_def)
      show ?thesis
      proof (cases "outcome ?a1")
        case (Inl e)
        with vars inputs sv iv p1 show ?thesis
          by (simp add: la_notebook_events la_notebook_outcome bind_def la_plan_def)
      next
        case a1: (Inr u)
        have e1: "map la_kind (events ?a1) = la_analysis_plan ''Maximize Coverage'' ''map2'' 7"
          using la_analysis_plan_followed(2)[of svc "request1 (snd inputs) (fst inputs)"
                 "''Analysis succeeded? ''" "''map2''" None 7] a1
          by (simp add: request1_def)
        have e2: "outcome ?a2 = Inr () \<Longrightarrow>
                  map la_kind (events ?a2) = la_analysis_plan ''Target Market Share'' ''map3'' 6"
          using la_analysis_plan_followed(2)[of svc "request2 (snd inputs) (fst inputs)"
                 "''Solve succeeded? ''" "''map3''" "Some 7" 6]
          by (simp add: request2_def)
        from vars inputs a1 sv iv e1 p2 e2 show ?thesis
          by (simp add: la_notebook_events la_notebook_outcome bind_def la_plan_def)
      qed
    qed
  qed
  then show ?thesis ..
qed

subsection \<open>The printed flag\<close>

lemma la_analysis_prints:
  "la_solve_location_allocation svc req = Inr result \<Longrightarrow>
   LA_Print (label @ (if solve_succeeded result then ''True'' else ''False''))
     \<in> set (events (la_analysis svc req label m z zl))"
  by (simp add: la_analysis_def events_bind outcome_bind bind_def py_bool_def split: sum.splits)

lemma la_flag_printed:
  assumes "LA_Solve req \<in> set (events (la_notebook svc))"
      and "la_solve_location_allocation svc req = Inr result"
  shows "LA_Print ((if problem_type req = ''Maximize Coverage''
                    then ''Analysis succeeded? '' else ''Solve succeeded? '') @
                   (if solve_succeeded result then ''True'' else ''False''))
           \<in> set (events (la_notebook svc))"
proof -
  from assms(1) have m: "LA_Solve req \<in> set (filter is_la_solve (events (la_notebook svc)))"
    by simp
  then obtain vars where vars: "outcome (la_setup svc) = Inr vars"
    by (cases "outcome (la_setup svc)") (auto simp: la_notebook_solves)
  from m vars obtain inputs where inputs: "outcome (la_inputs svc vars) = Inr inputs"
    by (cases "outcome (la_inputs svc vars)") (auto simp: la_notebook_solves)
  show ?thesis
  proof (cases "req = request1 (snd inputs) (fst inputs)")
    case True
    then have "problem_type req = ''Maximize Coverage''" by (simp add: request1_def)
    with True assms(2)
         la_analysis_prints[of svc req result "''Analysis succeeded? ''" "''map2''" None 7]
    show ?thesis by (simp add: la_notebook_events vars inputs)
  next
    case False
    with m vars inputs have r: "req = request2 (snd inputs) (fst inputs)"
      and a1: "outcome (la_analysis svc (request1 (snd inputs) (fst inputs))
                         ''Analysis succeeded? '' ''map2'' None 7) = Inr ()"
      by (auto simp: la_notebook_solves split: sum.splits)
    from r have "problem_type req \<noteq> ''Maximize Coverage''" by (simp add: request2_def)
    with r a1 assms(2)
         la_analysis_prints[of svc req result "''Solve succeeded? ''" "''map3''" "Some 7" 6]
    show ?thesis by (simp add: la_notebook_events vars inputs)
  qed
qed

section \<open>Properties of both notebooks\<close>

lemma sample_la_shown:
  "events (la_analysis sample_la_service req label m z zl) = la_shown req sample_la_result label m z zl"
proof -
  from la_analysis_complete[OF sample_la_analysis, of req label m z zl]
  show ?thesis by (auto simp: sample_la_service_def)
qed

lemma sample_la_run:
  "events (la_notebook sample_la_service) =
     events (la_setup sample_la_service) @
     [LA_Query ''candidates/0'', LA_Query ''patients/0''] @
     la_shown (request1 sample_weighted sample_candidates) sample_la_result
       ''Analysis succeeded? '' ''map2'' None 7 @
     la_shown (request2 sample_weighted sample_candidates) sample_la_result
       ''Solve succeeded? '' ''map3'' (Some 7) 6"
  by (simp add: la_notebook_events sample_la_setup(1) sample_la_inputs sample_la_analysis
      sample_la_shown)

lemma unreachable_sa_run:
  "events (sa_notebook pyfloat float_str unreachable_sa_service) =
     [SA_Connect ''https://www.arcgis.com'' ''arcgis_python'' ''P@ssword123'']"
  "outcome (sa_notebook pyfloat float_str unreachable_sa_service) =
     Inl (RemoteError ''invalid credentials'')"
  by (simp_all add: sa_notebook_def events_bind outcome_bind bind_def unreachable_sa_service_def)

lemma unreachable_la_run:
  "events (la_notebook unreachable_la_service) =
     [LA_Connect ''https://python.playground.esri.com/portal'' ''arcgis_python'' ''amazing_arcgis_123'']"
  "outcome (la_notebook unreachable_la_service) = Inl (RemoteError ''invalid credentials'')"
  by (simp_all add: la_notebook_events la_notebook_outcome la_setup_def events_bind outcome_bind
      bind_def unreachable_la_service_def)




lemma unsolved_with_flag: "unsolved_la_service = with_flag (\<lambda>req. False) sample_la_service"
  by (simp add: unsolved_la_service_def with_flag_def sample_la_service_def)

lemma unsolved_la_run:
  "events (la_notebook unsolved_la_service) =
     events (la_setup sample_la_service) @
     [LA_Query ''candidates/0'', LA_Query ''patients/0''] @
     la_shown (request1 sample_weighted sample_candidates)
       (sample_la_result\<lparr>solve_succeeded := False\<rparr>) ''Analysis succeeded? '' ''map2'' None 7 @
     la_shown (request2 sample_weighted sample_candidates)
       (sample_la_result\<lparr>solve_succeeded := False\<rparr>) ''Solve succeeded? '' ''map3'' (Some 7) 6"
proof -
  have s: "la_setup unsolved_la_service = la_setup sample_la_service"
    by (simp add: la_setup_def unsolved_la_service_def)
  have i: "la_inputs unsolved_la_service = la_inputs sample_la_service"
    by (simp add: la_inputs_def unsolved_la_service_def fun_eq_iff)
  have o: "outcome (la_analysis unsolved_la_service req label m z zl) = Inr ()" for req label m z zl
    by (simp add: la_analysis_def outcome_bind bind_def unsolved_la_service_def
        sample_la_service_def
        visualize_locate_allocate_results_def sample_la_result_def project_def getitem_def
        demand_allocated_df_def demand_not_allocated_df_def facilities_chosen_df_def
        facilities_df_def)
  have a: "events (la_analysis unsolved_la_service req label m z zl)
             = la_shown req (sample_la_result\<lparr>solve_succeeded := False\<rparr>) label m z zl"
    for req label m z zl
    using la_analysis_complete[OF o, of req label m z zl]
    by (auto simp: unsolved_la_service_def)
  show ?thesis
    by (simp add: la_notebook_events s i sample_la_setup(1) sample_la_inputs o a)
qed



end
